theory Spec2Isabelle
  imports Complex_Main
begin

section \<open>The survival game of \<^verbatim>\<open>src/scripts/index.js\<close>\<close>

text \<open>
  A shallow embedding of the entity classes and of the class \<^verbatim>\<open>VampireGame\<close>.

  JavaScript numbers that hold coordinates, speeds and times are modelled as
  \<^typ>\<open>real\<close>: the arithmetic is the exact one, rounding of IEEE doubles and the values
  NaN and Infinity are not part of the model. Numbers that only ever hold integers
  (hit points, score, wave, the spawn counter) are \<^typ>\<open>int\<close>.

  What the browser supplies is an argument of the function that reads it: the frame
  timestamp, the values of \<^verbatim>\<open>performance.now()\<close>, the results of
  \<^verbatim>\<open>Math.random()\<close> and the handle returned by \<^verbatim>\<open>requestAnimationFrame\<close>.
  The DOM is modelled by the list of cell writes a render issues. The HUD text, the
  overlays and the key listeners are not modelled.
\<close>

subsection \<open>Game constants\<close>

definition CANVAS_WIDTH :: nat where "CANVAS_WIDTH = 30"
definition CANVAS_HEIGHT :: nat where "CANVAS_HEIGHT = 15"
definition PLAYER_SPEED :: real where "PLAYER_SPEED = 0.008"
definition ENEMY_SPEED :: real where "ENEMY_SPEED = 0.002"
definition PROJECTILE_SPEED :: real where "PROJECTILE_SPEED = 0.03"
definition ATTACK_COOLDOWN :: real where "ATTACK_COOLDOWN = 350"
definition PLAYER_MAX_HP :: int where "PLAYER_MAX_HP = 100"
definition ENEMY_DAMAGE :: int where "ENEMY_DAMAGE = 10"
definition WAVE_DURATION :: real where "WAVE_DURATION = 20000"
definition BASE_SPAWN_RATE :: real where "BASE_SPAWN_RATE = 2000"
definition MIN_SPAWN_RATE :: real where "MIN_SPAWN_RATE = 500"

text \<open>The glyph constants are emoji strings in the source; the model names them.\<close>

datatype glyph = CHAR_EMPTY | CHAR_PLAYER | CHAR_ENEMY | CHAR_PROJECTILE | CHAR_XP

subsection \<open>Entity classes\<close>

text \<open>
  Class \<^verbatim>\<open>Entity\<close> is the root record, its subclasses extend it. The fields
  \<^verbatim>\<open>x\<close>, \<^verbatim>\<open>y\<close> and \<^verbatim>\<open>char\<close> are called \<open>xpos\<close>, \<open>ypos\<close> and \<open>glyph_of\<close>;
  the hit points of an \<^verbatim>\<open>Enemy\<close> are \<open>ehp\<close>, those of the \<^verbatim>\<open>Player\<close> are \<open>hp\<close>.
  The method \<^verbatim>\<open>update\<close> of a class \<^verbatim>\<open>C\<close> is \<open>update_C\<close>.
\<close>

record entity =
  xpos :: real
  ypos :: real
  glyph_of :: glyph
  active :: bool

record player = entity +
  hp :: int
  lastAttack :: real
  lastDirection :: "real \<times> real"
  invincible :: bool
  invincibleTimer :: real

record enemy = entity +
  ehp :: int

record projectile = entity +
  vx :: real
  vy :: real
  lifetime :: real

record xpGem = entity +
  gem_value :: int

definition getGridPos :: "'a entity_scheme \<Rightarrow> int \<times> int" where
  "getGridPos e = (\<lfloor>xpos e\<rfloor>, \<lfloor>ypos e\<rfloor>)"

definition new_Player :: "real \<Rightarrow> real \<Rightarrow> player" where
  "new_Player x0 y0 =
     \<lparr>xpos = x0, ypos = y0, glyph_of = CHAR_PLAYER, active = True,
      hp = PLAYER_MAX_HP, lastAttack = 0, lastDirection = (1, 0),
      invincible = False, invincibleTimer = 0\<rparr>"

definition new_Enemy :: "real \<Rightarrow> real \<Rightarrow> enemy" where
  "new_Enemy x0 y0 =
     \<lparr>xpos = x0, ypos = y0, glyph_of = CHAR_ENEMY, active = True, ehp = 1\<rparr>"

definition new_Projectile :: "real \<Rightarrow> real \<Rightarrow> real \<Rightarrow> real \<Rightarrow> projectile" where
  "new_Projectile x0 y0 vx0 vy0 =
     (let len = sqrt (vx0 * vx0 + vy0 * vy0) in
      \<lparr>xpos = x0, ypos = y0, glyph_of = CHAR_PROJECTILE, active = True,
       vx = (if len > 0 then (vx0 / len) * PROJECTILE_SPEED else PROJECTILE_SPEED),
       vy = (if len > 0 then (vy0 / len) * PROJECTILE_SPEED else 0),
       lifetime = 3000\<rparr>)"

definition new_XPGem :: "real \<Rightarrow> real \<Rightarrow> xpGem" where
  "new_XPGem x0 y0 =
     \<lparr>xpos = x0, ypos = y0, glyph_of = CHAR_XP, active = True, gem_value = 10\<rparr>"

subsubsection \<open>Player\<close>

text \<open>
  \<^verbatim>\<open>keys\<close> is the object filled by the key listeners; a key never pressed is
  \<^verbatim>\<open>undefined\<close>, which is falsy, hence a total function to \<^typ>\<open>bool\<close>.
\<close>

definition handleInput :: "(string \<Rightarrow> bool) \<Rightarrow> real \<Rightarrow> player \<Rightarrow> player" where
  "handleInput keys dt p =
     (let dy1 = (if keys ''KeyW'' \<or> keys ''ArrowUp'' then 0 - 1 else (0::real));
          dy2 = (if keys ''KeyS'' \<or> keys ''ArrowDown'' then dy1 + 1 else dy1);
          dx1 = (if keys ''KeyA'' \<or> keys ''ArrowLeft'' then 0 - 1 else (0::real));
          dx2 = (if keys ''KeyD'' \<or> keys ''ArrowRight'' then dx1 + 1 else dx1);
          len = sqrt (dx2 * dx2 + dy2 * dy2);
          dx = (if dx2 \<noteq> 0 \<and> dy2 \<noteq> 0 then dx2 / len else dx2);
          dy = (if dx2 \<noteq> 0 \<and> dy2 \<noteq> 0 then dy2 / len else dy2);
          x1 = xpos p + dx * PLAYER_SPEED * dt;
          y1 = ypos p + dy * PLAYER_SPEED * dt;
          x2 = max 0 (min (real CANVAS_WIDTH - 1) x1);
          y2 = max 0 (min (real CANVAS_HEIGHT - 1) y1)
      in p\<lparr>xpos := x2, ypos := y2,
           lastDirection := (if dx \<noteq> 0 \<or> dy \<noteq> 0 then (dx, dy) else lastDirection p)\<rparr>)"

definition update_player :: "real \<Rightarrow> player \<Rightarrow> player" where
  "update_player dt p =
     (if invincible p then
        (let p1 = p\<lparr>invincibleTimer := invincibleTimer p - dt\<rparr>
         in if invincibleTimer p1 \<le> 0 then p1\<lparr>invincible := False\<rparr> else p1)
      else p)"

text \<open>\<^verbatim>\<open>takeDamage\<close> returns whether the damage was applied, and the player.\<close>

definition takeDamage :: "int \<Rightarrow> player \<Rightarrow> bool \<times> player" where
  "takeDamage amount p =
     (if invincible p then (False, p)
      else (True, p\<lparr>hp := hp p - amount, invincible := True, invincibleTimer := 500\<rparr>))"

definition canAttack :: "real \<Rightarrow> player \<Rightarrow> bool" where
  "canAttack now p \<longleftrightarrow> now - lastAttack p \<ge> ATTACK_COOLDOWN"

definition attack :: "real \<Rightarrow> player \<Rightarrow> projectile \<times> player" where
  "attack now p =
     (let p1 = p\<lparr>lastAttack := now\<rparr>
      in (new_Projectile (xpos p1 + fst (lastDirection p1) * 0.5)
                         (ypos p1 + snd (lastDirection p1) * 0.5)
                         (fst (lastDirection p1)) (snd (lastDirection p1)), p1))"

subsubsection \<open>Enemy\<close>

definition update_enemy :: "real \<Rightarrow> player \<Rightarrow> enemy \<Rightarrow> enemy" where
  "update_enemy dt p e =
     (let dx = xpos p - xpos e;
          dy = ypos p - ypos e;
          dist = sqrt (dx * dx + dy * dy);
          x1 = (if dist > 0.5 then xpos e + (dx / dist) * ENEMY_SPEED * dt else xpos e);
          y1 = (if dist > 0.5 then ypos e + (dy / dist) * ENEMY_SPEED * dt else ypos e)
      in e\<lparr>xpos := max 0 (min (real CANVAS_WIDTH - 1) x1),
           ypos := max 0 (min (real CANVAS_HEIGHT - 1) y1)\<rparr>)"

text \<open>\<^verbatim>\<open>Enemy.takeDamage\<close> returns whether the enemy died, and the enemy.\<close>

definition enemy_takeDamage :: "enemy \<Rightarrow> bool \<times> enemy" where
  "enemy_takeDamage e =
     (let e1 = e\<lparr>ehp := ehp e - 1\<rparr>
      in if ehp e1 \<le> 0 then (True, e1\<lparr>active := False\<rparr>) else (False, e1))"

subsubsection \<open>Projectile\<close>

definition update_projectile :: "real \<Rightarrow> projectile \<Rightarrow> projectile" where
  "update_projectile dt q =
     (let q1 = q\<lparr>xpos := xpos q + vx q * dt\<rparr>;
          q2 = q1\<lparr>ypos := ypos q1 + vy q1 * dt\<rparr>;
          q3 = q2\<lparr>lifetime := lifetime q2 - dt\<rparr>
      in if xpos q3 < 0 \<or> xpos q3 \<ge> real CANVAS_WIDTH \<or>
            ypos q3 < 0 \<or> ypos q3 \<ge> real CANVAS_HEIGHT \<or>
            lifetime q3 \<le> 0
         then q3\<lparr>active := False\<rparr> else q3)"

subsection \<open>The game\<close>

datatype game_state = Idle | Playing | Paused | Gameover

record cell =
  cell_char :: glyph
  cell_class :: string

text \<open>
  The record is the \<^verbatim>\<open>VampireGame\<close> object once \<^verbatim>\<open>init()\<close> has run, which
  \<^verbatim>\<open>initVampireWindow\<close> calls right after the constructor: the player is never
  \<^verbatim>\<open>null\<close> then. \<open>animationId\<close> is \<open>None\<close> for \<^verbatim>\<open>null\<close>; a handle of
  \<^verbatim>\<open>requestAnimationFrame\<close> is a positive integer, hence truthy. \<open>starfield\<close> is the
  flag \<^verbatim>\<open>isAnimating\<close> of the background animation of \<^verbatim>\<open>canvas.js\<close>, which the game
  stops and restarts.
\<close>

record game =
  state :: game_state
  player :: player
  enemies :: "enemy list"
  projectiles :: "projectile list"
  xpGems :: "xpGem list"
  wave :: int
  score :: int
  waveTimer :: real
  spawnTimer :: real
  enemiesSpawnedThisWave :: int
  keys :: "string \<Rightarrow> bool"
  lastTimestamp :: real
  animationId :: "nat option"
  prevGrid :: "cell list list"
  starfield :: bool

subsubsection \<open>Lifecycle\<close>

definition start :: "real \<Rightarrow> nat \<Rightarrow> game \<Rightarrow> game" where
  "start now handle g =
     (if state g = Playing then g
      else g\<lparr>state := Playing, lastTimestamp := now, starfield := False,
             animationId := Some handle\<rparr>)"

definition pause :: "game \<Rightarrow> game" where
  "pause g =
     (if state g \<noteq> Playing then g
      else g\<lparr>state := Paused, animationId := None, starfield := True\<rparr>)"

definition resume :: "real \<Rightarrow> nat \<Rightarrow> game \<Rightarrow> game" where
  "resume now handle g =
     (if state g \<noteq> Paused then g
      else g\<lparr>state := Playing, lastTimestamp := now, starfield := False,
             animationId := Some handle\<rparr>)"

definition gameOver :: "game \<Rightarrow> game" where
  "gameOver g = g\<lparr>state := Gameover, animationId := None, starfield := True\<rparr>"

definition destroy :: "game \<Rightarrow> game" where
  "destroy g = g\<lparr>state := Idle, animationId := None, starfield := True\<rparr>"

subsubsection \<open>Collision detection\<close>

text \<open>
  \<^verbatim>\<open>Math.atan2(b, a)\<close>, the angle of the point \<open>(a, b)\<close>, by its mathematical
  definition (signed zeros apart).
\<close>

definition atan2 :: "real \<Rightarrow> real \<Rightarrow> real" where
  "atan2 b a =
     (if a > 0 then arctan (b / a)
      else if a < 0 then (if b \<ge> 0 then arctan (b / a) + pi else arctan (b / a) - pi)
      else if b > 0 then pi / 2
      else if b < 0 then - (pi / 2)
      else 0)"

text \<open>
  \<^verbatim>\<open>checkCollisions\<close> first filters the three arrays by \<^verbatim>\<open>active\<close>. The filtered
  arrays hold the same objects as the arrays of the game, so a mutation through one is
  seen through the other: the model keeps the objects in the lists of the game and
  lets a filtered array be the list of their indices, in the same order.
\<close>

definition activeIndices :: "'a entity_scheme list \<Rightarrow> nat list" where
  "activeIndices xs = filter (\<lambda>i. active (xs ! i)) [0..<length xs]"

text \<open>The loop "Player vs Enemies" over \<^verbatim>\<open>activeEnemies\<close>.\<close>

fun playerVsEnemies :: "real \<Rightarrow> real \<Rightarrow> nat list \<Rightarrow> game \<Rightarrow> game" where
  "playerVsEnemies px py [] g = g"
| "playerVsEnemies px py (i # rest) g =
     (let e = enemies g ! i;
          dx = \<bar>px - xpos e\<bar>;
          dy = \<bar>py - ypos e\<bar>
      in if dx < 0.8 \<and> dy < 0.8 then
           (let (hit, p1) = takeDamage ENEMY_DAMAGE (player g)
            in if hit then
                 (let angle = atan2 (ypos e - py) (xpos e - px);
                      e1 = e\<lparr>xpos := xpos e + cos angle * 2\<rparr>;
                      e2 = e1\<lparr>ypos := ypos e1 + sin angle * 2\<rparr>
                  in playerVsEnemies px py rest
                       (g\<lparr>player := p1, enemies := (enemies g)[i := e2]\<rparr>))
               else playerVsEnemies px py rest (g\<lparr>player := p1\<rparr>))
         else playerVsEnemies px py rest g)"

text \<open>
  The inner loop of "Projectiles vs Enemies": projectile \<open>j\<close> against
  \<^verbatim>\<open>activeEnemies\<close>, leaving the loop (\<^verbatim>\<open>break\<close>) at the first hit.
\<close>

fun projectileVsEnemies :: "nat \<Rightarrow> nat list \<Rightarrow> game \<Rightarrow> game" where
  "projectileVsEnemies j [] g = g"
| "projectileVsEnemies j (i # rest) g =
     (let proj = projectiles g ! j;
          e = enemies g ! i
      in if \<not> active e then projectileVsEnemies j rest g
         else if \<bar>xpos proj - xpos e\<bar> < 0.8 \<and> \<bar>ypos proj - ypos e\<bar> < 0.8 then
           (let g1 = g\<lparr>projectiles := (projectiles g)[j := proj\<lparr>active := False\<rparr>]\<rparr>;
                (died, e1) = enemy_takeDamage e;
                g2 = g1\<lparr>enemies := (enemies g1)[i := e1]\<rparr>
            in if died then
                 g2\<lparr>score := score g2 + 10,
                    xpGems := xpGems g2 @ [new_XPGem (xpos e1) (ypos e1)]\<rparr>
               else g2)
         else projectileVsEnemies j rest g)"

text \<open>The outer loop over \<^verbatim>\<open>activeProjectiles\<close>.\<close>

fun projectilesVsEnemies :: "nat list \<Rightarrow> nat list \<Rightarrow> game \<Rightarrow> game" where
  "projectilesVsEnemies [] aes g = g"
| "projectilesVsEnemies (j # rest) aes g =
     (if \<not> active (projectiles g ! j) then projectilesVsEnemies rest aes g
      else projectilesVsEnemies rest aes (projectileVsEnemies j aes g))"

text \<open>The loop "Player vs XP Gems" over \<^verbatim>\<open>activeGems\<close>.\<close>

fun playerVsGems :: "real \<Rightarrow> real \<Rightarrow> nat list \<Rightarrow> game \<Rightarrow> game" where
  "playerVsGems px py [] g = g"
| "playerVsGems px py (k # rest) g =
     (let gem = xpGems g ! k;
          dx = \<bar>px - xpos gem\<bar>;
          dy = \<bar>py - ypos gem\<bar>
      in if dx < 1.5 \<and> dy < 1.5 then
           playerVsGems px py rest
             (g\<lparr>xpGems := (xpGems g)[k := gem\<lparr>active := False\<rparr>],
                score := score g + gem_value gem\<rparr>)
         else playerVsGems px py rest g)"

definition checkCollisions :: "game \<Rightarrow> game" where
  "checkCollisions g =
     (let activeEnemies = activeIndices (enemies g);
          activeProjectiles = activeIndices (projectiles g);
          activeGems = activeIndices (xpGems g);
          px = xpos (player g);
          py = ypos (player g);
          g1 = playerVsEnemies px py activeEnemies g;
          g2 = (if length activeProjectiles > 0 \<and> length activeEnemies > 0
                then projectilesVsEnemies activeProjectiles activeEnemies g1 else g1)
      in playerVsGems px py activeGems g2)"

subsubsection \<open>Wave system\<close>

text \<open>
  The two expressions \<^verbatim>\<open>spawnRate\<close> and \<^verbatim>\<open>maxEnemies\<close> of \<^verbatim>\<open>updateWave\<close>, as
  functions of the wave number.
\<close>

definition spawnRate :: "int \<Rightarrow> real" where
  "spawnRate w = max MIN_SPAWN_RATE (BASE_SPAWN_RATE - (real_of_int w - 1) * 150)"

definition maxEnemies :: "int \<Rightarrow> int" where
  "maxEnemies w = 3 + (w - 1) * 2"

text \<open>
  \<open>r1\<close> and \<open>r2\<close> are the two results of \<^verbatim>\<open>Math.random()\<close>, each in \<open>[0, 1)\<close>,
  so that \<^verbatim>\<open>side\<close> is one of 0, 1, 2, 3. The \<^verbatim>\<open>switch\<close> has no default: on
  another value the source leaves \<^verbatim>\<open>x\<close> and \<^verbatim>\<open>y\<close> undefined, and so does the model.
\<close>

definition spawnEnemy :: "real \<Rightarrow> real \<Rightarrow> game \<Rightarrow> game" where
  "spawnEnemy r1 r2 g =
     (let side = \<lfloor>r1 * 4\<rfloor>;
          (x0, y0) =
            (if side = 0 then (r2 * real CANVAS_WIDTH, 0)
             else if side = 1 then (real CANVAS_WIDTH - 1, r2 * real CANVAS_HEIGHT)
             else if side = 2 then (r2 * real CANVAS_WIDTH, real CANVAS_HEIGHT - 1)
             else if side = 3 then (0, r2 * real CANVAS_HEIGHT)
             else (undefined, undefined))
      in g\<lparr>enemies := enemies g @ [new_Enemy x0 y0],
           enemiesSpawnedThisWave := enemiesSpawnedThisWave g + 1\<rparr>)"

definition updateWave :: "real \<Rightarrow> real \<Rightarrow> real \<Rightarrow> game \<Rightarrow> game" where
  "updateWave dt r1 r2 g =
     (let g1 = g\<lparr>waveTimer := waveTimer g + dt\<rparr>;
          g2 = g1\<lparr>spawnTimer := spawnTimer g1 + dt\<rparr>;
          g3 = (if waveTimer g2 \<ge> WAVE_DURATION
                then g2\<lparr>wave := wave g2 + 1, waveTimer := 0, enemiesSpawnedThisWave := 0\<rparr>
                else g2)
      in if spawnTimer g3 \<ge> spawnRate (wave g3) \<and>
            int (length (enemies g3)) < maxEnemies (wave g3) * 2
         then (spawnEnemy r1 r2 g3)\<lparr>spawnTimer := 0\<rparr>
         else g3)"

subsubsection \<open>Rendering\<close>

definition emptyCell :: cell where
  "emptyCell = \<lparr>cell_char = CHAR_EMPTY, cell_class = ''game-empty''\<rparr>"

definition emptyGrid :: "cell list list" where
  "emptyGrid = replicate CANVAS_HEIGHT (replicate CANVAS_WIDTH emptyCell)"

definition onGrid :: "int \<times> int \<Rightarrow> bool" where
  "onGrid pos \<longleftrightarrow>
     fst pos \<ge> 0 \<and> fst pos < int CANVAS_WIDTH \<and> snd pos \<ge> 0 \<and> snd pos < int CANVAS_HEIGHT"

text \<open>The assignment \<^verbatim>\<open>grid[pos.y][pos.x] = c\<close>.\<close>

definition setCell :: "int \<times> int \<Rightarrow> cell \<Rightarrow> cell list list \<Rightarrow> cell list list" where
  "setCell pos c grid = grid[nat (snd pos) := (grid ! nat (snd pos))[nat (fst pos) := c]]"

text \<open>The body of the three \<^verbatim>\<open>forEach\<close> loops that draw a layer.\<close>

definition draw :: "string \<Rightarrow> 'a entity_scheme \<Rightarrow> cell list list \<Rightarrow> cell list list" where
  "draw cls e grid =
     (let pos = getGridPos e
      in if onGrid pos then setCell pos \<lparr>cell_char = glyph_of e, cell_class = cls\<rparr> grid
         else grid)"

definition buildGrid :: "real \<Rightarrow> game \<Rightarrow> cell list list" where
  "buildGrid now g =
     (let grid1 = fold (draw ''game-xp'') (xpGems g) emptyGrid;
          grid2 = fold (draw ''game-projectile'') (projectiles g) grid1;
          grid3 = fold (draw ''game-enemy'') (enemies g) grid2;
          playerPos = getGridPos (player g)
      in if onGrid playerPos then
           (let showPlayer = (\<not> invincible (player g) \<or> \<lfloor>now / 100\<rfloor> mod 2 = 0)
            in if showPlayer
               then setCell playerPos
                      \<lparr>cell_char = glyph_of (player g), cell_class = ''game-player''\<rparr> grid3
               else grid3)
         else grid3)"

text \<open>
  A surface write: the row, the column, and the glyph and class given to the DOM cell.
  The step of the inner loop of the selective update compares one cell and, where it
  differs, writes it and stores it in \<^verbatim>\<open>prevGrid\<close>.
\<close>

type_synonym cell_write = "nat \<times> nat \<times> cell"

definition updateCell ::
  "cell list list \<Rightarrow> nat \<Rightarrow> nat \<Rightarrow> cell list list \<times> cell_write list
     \<Rightarrow> cell list list \<times> cell_write list" where
  "updateCell grid row col acc =
     (let prev = fst acc;
          current = grid ! row ! col;
          old = prev ! row ! col
      in if cell_char current \<noteq> cell_char old \<or> cell_class current \<noteq> cell_class old
         then (prev[row := (prev ! row)[col :=
                 \<lparr>cell_char = cell_char current, cell_class = cell_class current\<rparr>]],
               snd acc @ [(row, col, current)])
         else acc)"

definition selectiveUpdate ::
  "cell list list \<Rightarrow> cell list list \<Rightarrow> cell list list \<times> cell_write list" where
  "selectiveUpdate grid prev =
     fold (\<lambda>row. fold (\<lambda>col. updateCell grid row col) [0..<CANVAS_WIDTH])
          [0..<CANVAS_HEIGHT] (prev, [])"

definition render :: "real \<Rightarrow> game \<Rightarrow> game \<times> cell_write list" where
  "render now g =
     (let grid = buildGrid now g;
          res = selectiveUpdate grid (prevGrid g)
      in (g\<lparr>prevGrid := fst res\<rparr>, snd res))"

subsubsection \<open>Initialisation\<close>

definition init :: "real \<Rightarrow> game \<Rightarrow> game \<times> cell_write list" where
  "init now g =
     render now
       (g\<lparr>player := new_Player (real_of_int \<lfloor>real CANVAS_WIDTH / 2\<rfloor>)
                                (real_of_int \<lfloor>real CANVAS_HEIGHT / 2\<rfloor>),
          enemies := [], projectiles := [], xpGems := [],
          wave := 1, score := 0, waveTimer := 0, spawnTimer := 0,
          enemiesSpawnedThisWave := 0, keys := (\<lambda>k. False),
          prevGrid := emptyGrid\<rparr>)"

text \<open>
  The constructor followed by \<^verbatim>\<open>init()\<close>, as \<^verbatim>\<open>initVampireWindow\<close> calls them;
  \<open>sf\<close> is the state of the background animation at that time.
\<close>

definition new_VampireGame :: "bool \<Rightarrow> real \<Rightarrow> game" where
  "new_VampireGame sf now =
     fst (init now
       \<lparr>state = Idle,
        player = new_Player (real_of_int \<lfloor>real CANVAS_WIDTH / 2\<rfloor>)
                            (real_of_int \<lfloor>real CANVAS_HEIGHT / 2\<rfloor>),
        enemies = [], projectiles = [], xpGems = [],
        wave = 1, score = 0, waveTimer = 0, spawnTimer = 0,
        enemiesSpawnedThisWave = 0, keys = (\<lambda>k. False),
        lastTimestamp = 0, animationId = None, prevGrid = emptyGrid, starfield = sf\<rparr>)"

subsubsection \<open>Game loop\<close>

text \<open>
  What the browser supplies to one call of \<^verbatim>\<open>gameLoop\<close>: the timestamp of the
  frame, \<^verbatim>\<open>performance.now()\<close> at the auto-attack and in \<^verbatim>\<open>render\<close>, the two
  random numbers of \<^verbatim>\<open>spawnEnemy\<close> and the handle of the next frame request.
\<close>

record frame =
  f_timestamp :: real
  f_now :: real
  f_random1 :: real
  f_random2 :: real
  f_renderNow :: real
  f_handle :: nat

text \<open>Steps 1 to 3 of \<^verbatim>\<open>gameLoop\<close>: input, auto-attack, update of the entities.\<close>

definition moveEntities :: "real \<Rightarrow> real \<Rightarrow> game \<Rightarrow> game" where
  "moveEntities dt now g =
     (let p1 = handleInput (keys g) dt (player g);
          (projs, p2) =
            (if canAttack now p1
             then (let (proj, p') = attack now p1 in (projectiles g @ [proj], p'))
             else (projectiles g, p1));
          p3 = update_player dt p2
      in g\<lparr>player := p3,
           enemies := map (update_enemy dt p3) (enemies g),
           projectiles := map (update_projectile dt) projs\<rparr>)"

text \<open>Step 6: each array is filtered only if it holds an inactive entity.\<close>

definition cleanup :: "game \<Rightarrow> game" where
  "cleanup g =
     (let g1 = (if list_ex (\<lambda>e. \<not> active e) (enemies g)
                then g\<lparr>enemies := filter active (enemies g)\<rparr> else g);
          g2 = (if list_ex (\<lambda>q. \<not> active q) (projectiles g1)
                then g1\<lparr>projectiles := filter active (projectiles g1)\<rparr> else g1)
      in if list_ex (\<lambda>x. \<not> active x) (xpGems g2)
         then g2\<lparr>xpGems := filter active (xpGems g2)\<rparr> else g2)"

definition gameLoop :: "frame \<Rightarrow> game \<Rightarrow> game \<times> cell_write list" where
  "gameLoop fr g =
     (if state g \<noteq> Playing then (g, [])
      else
        (let dt = f_timestamp fr - lastTimestamp g;
             g0 = g\<lparr>lastTimestamp := f_timestamp fr\<rparr>;
             g1 = moveEntities dt (f_now fr) g0;
             g2 = checkCollisions g1;
             g3 = updateWave dt (f_random1 fr) (f_random2 fr) g2;
             g4 = cleanup g3
         in if hp (player g4) \<le> 0 then (gameOver g4, [])
            else (let (g5, ws) = render (f_renderNow fr) g4
                  in (g5\<lparr>animationId := Some (f_handle fr)\<rparr>, ws))))"

subsection \<open>Notions of the specification and example games\<close>

text \<open>
  The specification's "a hostile contacts the player": an active hostile is within
  0.8 of the player on both axes.
\<close>

definition hostileContact :: "game \<Rightarrow> bool" where
  "hostileContact g \<longleftrightarrow>
     list_ex (\<lambda>e. active e \<and> \<bar>xpos (player g) - xpos e\<bar> < 0.8
                           \<and> \<bar>ypos (player g) - ypos e\<bar> < 0.8) (enemies g)"

text \<open>A game in which two of three hostiles touch the player.\<close>

definition contact_game :: game where
  "contact_game =
     \<lparr>state = Playing, player = new_Player 15 7,
      enemies = [new_Enemy 3 2, new_Enemy 15.5 7.25, new_Enemy 15 6.5],
      projectiles = [], xpGems = [],
      wave = 1, score = 0, waveTimer = 4000, spawnTimer = 0,
      enemiesSpawnedThisWave = 3, keys = (\<lambda>k. False),
      lastTimestamp = 4000, animationId = Some 1, prevGrid = emptyGrid, starfield = False\<rparr>"

text \<open>
  A game with six hostiles, the bound of wave 1, and a projectile about to hit the
  first of them.
\<close>

definition crowded_game :: game where
  "crowded_game =
     \<lparr>state = Playing, player = new_Player 15 7,
      enemies = [new_Enemy 20 7, new_Enemy 3 2, new_Enemy 25 12, new_Enemy 8 13,
                 new_Enemy 1 7, new_Enemy 28 1],
      projectiles = [new_Projectile 19.75 7 1 0], xpGems = [],
      wave = 1, score = 0, waveTimer = 13990, spawnTimer = 1990,
      enemiesSpawnedThisWave = 6, keys = (\<lambda>k. False),
      lastTimestamp = 13990, animationId = Some 1, prevGrid = emptyGrid, starfield = False\<rparr>"

text \<open>A game 16 ms before the end of wave 1, with no hostile left.\<close>

definition rollover_game :: game where
  "rollover_game =
     \<lparr>state = Playing, player = new_Player 15 7,
      enemies = [], projectiles = [], xpGems = [],
      wave = 1, score = 50, waveTimer = 19984, spawnTimer = 1984,
      enemiesSpawnedThisWave = 5, keys = (\<lambda>k. False),
      lastTimestamp = 19984, animationId = Some 1, prevGrid = emptyGrid, starfield = False\<rparr>"

text \<open>A game whose player stands near the right edge and is ready to attack.\<close>

definition edge_game :: game where
  "edge_game =
     \<lparr>state = Playing, player = new_Player 28.6 7,
      enemies = [], projectiles = [], xpGems = [],
      wave = 1, score = 0, waveTimer = 984, spawnTimer = 984,
      enemiesSpawnedThisWave = 0, keys = (\<lambda>k. False),
      lastTimestamp = 984, animationId = Some 1, prevGrid = emptyGrid, starfield = False\<rparr>"

text \<open>
  The wave system over successive ticks: each tick gives its time step and the two
  random numbers of a spawn.
\<close>

definition updateWaves :: "(real \<times> real \<times> real) list \<Rightarrow> game \<Rightarrow> game" where
  "updateWaves ticks g = fold (\<lambda>t. updateWave (fst t) (fst (snd t)) (snd (snd t))) ticks g"

text \<open>
  A grid as \<^verbatim>\<open>initGrid\<close> and \<^verbatim>\<open>render\<close> build it: \<open>CANVAS_HEIGHT\<close> rows of
  \<open>CANVAS_WIDTH\<close> cells.
\<close>

definition wellFormedGrid :: "cell list list \<Rightarrow> bool" where
  "wellFormedGrid gr \<longleftrightarrow>
     length gr = CANVAS_HEIGHT \<and> list_all (\<lambda>row. length row = CANVAS_WIDTH) gr"

text \<open>
  The cells of a frame that differ from the previous frame, in the order of the
  selective update, each with its new content.
\<close>

definition changedCells :: "cell list list \<Rightarrow> cell list list \<Rightarrow> cell_write list" where
  "changedCells grid prev =
     concat (map (\<lambda>row. map (\<lambda>col. (row, col, grid ! row ! col))
                          (filter (\<lambda>col. grid ! row ! col \<noteq> prev ! row ! col) [0..<CANVAS_WIDTH]))
                 [0..<CANVAS_HEIGHT])"

text \<open>What a render shows of an entity: its grid cell and its glyph.\<close>

definition cellKey :: "'a entity_scheme \<Rightarrow> (int \<times> int) \<times> glyph" where
  "cellKey e = (getGridPos e, glyph_of e)"

text \<open>
  A game whose player is invincible and alone in the arena, and the two frames the
  browser delivers next, 16 ms apart.
\<close>

definition blink_game :: game where
  "blink_game =
     \<lparr>state = Playing,
      player = (new_Player 15 7)\<lparr>hp := 90, lastAttack := 1000, invincible := True,
                                   invincibleTimer := 400\<rparr>,
      enemies = [], projectiles = [], xpGems = [],
      wave = 1, score = 0, waveTimer = 1080, spawnTimer = 1080,
      enemiesSpawnedThisWave = 0, keys = (\<lambda>k. False),
      lastTimestamp = 1080, animationId = Some 1, prevGrid = emptyGrid, starfield = False\<rparr>"

definition blink_frame1 :: frame where
  "blink_frame1 = \<lparr>f_timestamp = 1096, f_now = 1097, f_random1 = 1 / 4, f_random2 = 1 / 2,
                    f_renderNow = 1098, f_handle = 2\<rparr>"

definition blink_frame2 :: frame where
  "blink_frame2 = \<lparr>f_timestamp = 1112, f_now = 1113, f_random1 = 3 / 4, f_random2 = 1 / 4,
                    f_renderNow = 1114, f_handle = 3\<rparr>"









section \<open>Properties\<close>

subsection \<open>Wave escalation\<close>

text \<open>
  C6. For every wave number \<open>w \<ge> 1\<close> the spawn interval is
  \<open>max 500 (2000 - (w - 1) * 150)\<close>; it does not increase when the wave number
  increases and is never below the minimum of 500 ms; the population bound
  \<open>3 + (w - 1) * 2\<close> does not decrease when the wave number increases.
\<close>

theorem C6_wave_escalation:
  assumes "1 \<le> w" and "w \<le> w'"
  shows "spawnRate w = max 500 (2000 - (real_of_int w - 1) * 150)
       \<and> spawnRate w' \<le> spawnRate w
       \<and> MIN_SPAWN_RATE \<le> spawnRate w
       \<and> maxEnemies w = 3 + (w - 1) * 2
       \<and> maxEnemies w \<le> maxEnemies w'"
proof -
  have rate: "spawnRate w = max 500 (2000 - (real_of_int w - 1) * 150)"
    by (simp add: spawnRate_def MIN_SPAWN_RATE_def BASE_SPAWN_RATE_def)
  have "real_of_int w \<le> real_of_int w'"
    using assms(2) by simp
  then have mono: "spawnRate w' \<le> spawnRate w"
    by (simp add: spawnRate_def max_def)
  have floor: "MIN_SPAWN_RATE \<le> spawnRate w"
    by (simp add: spawnRate_def)
  have cap: "maxEnemies w \<le> maxEnemies w'"
    using assms(2) by (simp add: maxEnemies_def)
  show ?thesis
    using rate mono floor cap by (simp add: maxEnemies_def)
qed

theorem C6_wave_escalation_witness:
  "(1::int) \<le> 3 \<and> (3::int) \<le> 12 \<and> spawnRate 3 = 1700 \<and> spawnRate 12 = 500
   \<and> spawnRate 12 \<le> spawnRate 3 \<and> MIN_SPAWN_RATE \<le> spawnRate 3
   \<and> maxEnemies 3 = 7 \<and> maxEnemies 3 \<le> maxEnemies 12"
  using C6_wave_escalation [of 3 12]
  by (simp add: spawnRate_def MIN_SPAWN_RATE_def BASE_SPAWN_RATE_def)

subsection \<open>Lifecycle\<close>

text \<open>
  C9. Pausing a game that is playing makes it paused and cancels the pending frame
  (a frame callback that would still arrive does nothing), restarts the background
  animation, and changes nothing else: the player with all its fields, every hostile,
  projectile and pickup, the wave number, the score, the wave timer, the spawn timer
  and the spawn counter of the wave are the same after \<^verbatim>\<open>pause()\<close> as before.
\<close>

theorem C9_pause_preserves:
  assumes "state g = Playing"
  shows "pause g = g\<lparr>state := Paused, animationId := None, starfield := True\<rparr>
       \<and> state (pause g) = Paused
       \<and> animationId (pause g) = None
       \<and> gameLoop fr (pause g) = (pause g, [])
       \<and> player (pause g) = player g
       \<and> enemies (pause g) = enemies g
       \<and> projectiles (pause g) = projectiles g
       \<and> xpGems (pause g) = xpGems g
       \<and> wave (pause g) = wave g
       \<and> score (pause g) = score g
       \<and> waveTimer (pause g) = waveTimer g
       \<and> spawnTimer (pause g) = spawnTimer g
       \<and> enemiesSpawnedThisWave (pause g) = enemiesSpawnedThisWave g
       \<and> lastTimestamp (pause g) = lastTimestamp g
       \<and> keys (pause g) = keys g
       \<and> prevGrid (pause g) = prevGrid g"
  using assms by (simp add: pause_def gameLoop_def)

theorem C9_pause_preserves_witness:
  "state (start 5 1 (new_VampireGame True 0)) = Playing
   \<and> state (pause (start 5 1 (new_VampireGame True 0))) = Paused
   \<and> animationId (pause (start 5 1 (new_VampireGame True 0))) = None
   \<and> player (pause (start 5 1 (new_VampireGame True 0))) = new_Player 15 7
   \<and> wave (pause (start 5 1 (new_VampireGame True 0))) = 1
   \<and> lastTimestamp (pause (start 5 1 (new_VampireGame True 0))) = 5"
proof -
  have idle: "state (new_VampireGame True 0) = Idle"
    by (simp add: new_VampireGame_def init_def render_def Let_def)
  have playing: "state (start 5 1 (new_VampireGame True 0)) = Playing"
    by (simp add: start_def idle)
  have fields: "player (start 5 1 (new_VampireGame True 0)) = new_Player 15 7
      \<and> wave (start 5 1 (new_VampireGame True 0)) = 1
      \<and> lastTimestamp (start 5 1 (new_VampireGame True 0)) = 5"
    by (simp add: start_def idle new_VampireGame_def init_def render_def Let_def
        CANVAS_WIDTH_def CANVAS_HEIGHT_def)
  show ?thesis
    using C9_pause_preserves [OF playing] playing fields by simp
qed

text \<open>
  C10. A lifecycle operation called in a state it is not meant for returns the game
  as it is: \<^verbatim>\<open>start()\<close> on a playing game, \<^verbatim>\<open>pause()\<close> on a game that is not
  playing, \<^verbatim>\<open>resume()\<close> on a game that is not paused. The whole record is unchanged:
  the state label, the entities and the timers.
\<close>

theorem C10_lifecycle_noops:
  "(state g = Playing \<longrightarrow> start now h g = g)
   \<and> (state g \<noteq> Playing \<longrightarrow> pause g = g)
   \<and> (state g \<noteq> Paused \<longrightarrow> resume now h g = g)"
  by (simp add: start_def pause_def resume_def)

theorem C10_lifecycle_noops_witness:
  "state (start 5 1 (new_VampireGame True 0)) = Playing
   \<and> state (start 5 1 (new_VampireGame True 0)) \<noteq> Paused
   \<and> state (new_VampireGame True 0) \<noteq> Playing
   \<and> start 9 2 (start 5 1 (new_VampireGame True 0)) = start 5 1 (new_VampireGame True 0)
   \<and> resume 9 2 (start 5 1 (new_VampireGame True 0)) = start 5 1 (new_VampireGame True 0)
   \<and> pause (new_VampireGame True 0) = new_VampireGame True 0"
proof -
  have idle: "state (new_VampireGame True 0) = Idle"
    by (simp add: new_VampireGame_def init_def render_def Let_def)
  have playing: "state (start 5 1 (new_VampireGame True 0)) = Playing"
    by (simp add: start_def idle)
  show ?thesis
    using C10_lifecycle_noops [of "start 5 1 (new_VampireGame True 0)" 9 2]
      C10_lifecycle_noops [of "new_VampireGame True 0" 9 2] idle playing
    by simp
qed

subsection \<open>Projectile lifetime\<close>

lemma update_projectile_inactive:
  "\<not> active q \<Longrightarrow> \<not> active (update_projectile dt q)"
  by (simp add: update_projectile_def Let_def)

lemma update_projectile_lifetime:
  "lifetime (update_projectile dt q) = lifetime q - dt"
  by (simp add: update_projectile_def Let_def)

lemma update_projectile_expired:
  "lifetime (update_projectile dt q) \<le> 0 \<Longrightarrow> \<not> active (update_projectile dt q)"
  by (auto simp: update_projectile_def Let_def split: if_splits)

lemma fold_update_projectile_inactive:
  "\<not> active q \<Longrightarrow> \<not> active (fold update_projectile dts q)"
  by (induction dts arbitrary: q) (simp_all add: update_projectile_inactive)

lemma fold_update_projectile_lifetime:
  "lifetime (fold update_projectile dts q) = lifetime q - sum_list dts"
  by (induction dts arbitrary: q) (simp_all add: update_projectile_lifetime)

lemma fold_update_projectile_expired:
  assumes "dts \<noteq> []" and "lifetime q - sum_list dts \<le> 0"
  shows "\<not> active (fold update_projectile dts q)"
proof -
  obtain ds d where dts: "dts = ds @ [d]"
    using assms(1) by (meson rev_exhaust)
  have "lifetime (update_projectile d (fold update_projectile ds q)) \<le> 0"
    using assms(2) by (simp add: dts update_projectile_lifetime fold_update_projectile_lifetime)
  then show ?thesis
    by (simp add: dts update_projectile_expired)
qed

text \<open>
  C7. A projectile is created with a lifetime of 3000 ms. Let \<open>dts\<close> be the time
  steps of its successive updates. If the time steps of the first \<open>k\<close> updates add up
  to 3000 ms or more, the projectile is not active after the updates, however many
  follow: it is deactivated at the latest by the update at which the elapsed time
  reaches its lifetime. (Leaving the arena only deactivates it sooner, so the
  statement needs no hypothesis on the position.)
\<close>

theorem C7_projectile_lifetime:
  assumes "k \<le> length dts" and "3000 \<le> sum_list (take k dts)"
  shows "\<not> active (fold update_projectile dts (new_Projectile x0 y0 vx0 vy0))"
proof -
  let ?q = "new_Projectile x0 y0 vx0 vy0"
  have life: "lifetime ?q = 3000"
    by (simp add: new_Projectile_def Let_def)
  have "take k dts \<noteq> []"
  proof
    assume "take k dts = []"
    then have "sum_list (take k dts) = 0" by (simp only: sum_list.Nil)
    with assms(2) show False by simp
  qed
  then have "\<not> active (fold update_projectile (take k dts) ?q)"
    using assms(2) life by (intro fold_update_projectile_expired) simp_all
  then have "\<not> active (fold update_projectile (drop k dts) (fold update_projectile (take k dts) ?q))"
    by (rule fold_update_projectile_inactive)
  moreover have "fold update_projectile dts ?q =
      fold update_projectile (drop k dts) (fold update_projectile (take k dts) ?q)"
    by (metis append_take_drop_id fold_append comp_apply)
  ultimately show ?thesis by simp
qed

theorem C7_projectile_lifetime_witness:
  "(2::nat) \<le> length [1000, 2000, 16 :: real] \<and> 3000 \<le> sum_list (take 2 [1000, 2000, 16 :: real])
   \<and> \<not> active (fold update_projectile [1000, 2000, 16] (new_Projectile 15 7 0 0))"
  using C7_projectile_lifetime [of 2 "[1000, 2000, 16]" 15 7 0 0] by simp

subsection \<open>Invincibility\<close>

lemma playerVsEnemies_invincible:
  "invincible (player g) \<Longrightarrow> playerVsEnemies px py idxs g = g"
  by (induction idxs arbitrary: g) (simp_all add: takeDamage_def Let_def)

lemma playerVsEnemies_damage:
  assumes "\<not> invincible (player g)"
    and "\<exists>i \<in> set idxs. \<bar>px - xpos (enemies g ! i)\<bar> < 0.8 \<and> \<bar>py - ypos (enemies g ! i)\<bar> < 0.8"
  shows "player (playerVsEnemies px py idxs g) =
           (player g)\<lparr>hp := hp (player g) - ENEMY_DAMAGE, invincible := True,
                       invincibleTimer := 500\<rparr>"
  using assms
proof (induction idxs arbitrary: g)
  case Nil
  then show ?case by simp
next
  case (Cons i rest)
  show ?case
  proof (cases "\<bar>px - xpos (enemies g ! i)\<bar> < 0.8 \<and> \<bar>py - ypos (enemies g ! i)\<bar> < 0.8")
    case True
    then show ?thesis
      using Cons.prems(1)
      by (simp add: takeDamage_def Let_def playerVsEnemies_invincible)
  next
    case False
    then have "\<exists>i \<in> set rest. \<bar>px - xpos (enemies g ! i)\<bar> < 0.8 \<and> \<bar>py - ypos (enemies g ! i)\<bar> < 0.8"
      using Cons.prems(2) by auto
    then show ?thesis
      using False Cons.IH [OF Cons.prems(1)] by (auto simp: Let_def)
  qed
qed

lemma playerVsEnemies_no_contact:
  assumes "\<forall>i \<in> set idxs. \<not> (\<bar>px - xpos (enemies g ! i)\<bar> < 0.8 \<and> \<bar>py - ypos (enemies g ! i)\<bar> < 0.8)"
  shows "playerVsEnemies px py idxs g = g"
  using assms by (induction idxs arbitrary: g) (auto simp: Let_def)

lemma player_projectileVsEnemies [simp]:
  "player (projectileVsEnemies j idxs g) = player g"
  by (induction idxs arbitrary: g) (simp_all add: Let_def split: prod.splits)

lemma player_projectilesVsEnemies [simp]:
  "player (projectilesVsEnemies js idxs g) = player g"
  by (induction js arbitrary: g) simp_all

lemma player_playerVsGems [simp]:
  "player (playerVsGems px py ks g) = player g"
  by (induction ks arbitrary: g) (simp_all add: Let_def)

lemma player_checkCollisions:
  "player (checkCollisions g) =
     player (playerVsEnemies (xpos (player g)) (ypos (player g)) (activeIndices (enemies g)) g)"
  by (simp add: checkCollisions_def Let_def)

lemma hostileContact_iff:
  "hostileContact g \<longleftrightarrow>
     (\<exists>i \<in> set (activeIndices (enemies g)).
        \<bar>xpos (player g) - xpos (enemies g ! i)\<bar> < 0.8 \<and>
        \<bar>ypos (player g) - ypos (enemies g ! i)\<bar> < 0.8)"
  unfolding hostileContact_def activeIndices_def list_ex_iff
  by (force simp: in_set_conv_nth)

lemma update_player_hp [simp]: "hp (update_player dt p) = hp p"
  by (simp add: update_player_def Let_def)

lemma fold_update_player_hp [simp]: "hp (fold update_player dts p) = hp p"
  by (induction dts arbitrary: p) simp_all

lemma fold_update_player_running:
  assumes "invincible p"
    and "\<forall>k. 1 \<le> k \<and> k \<le> length dts \<longrightarrow> sum_list (take k dts) < invincibleTimer p"
  shows "fold update_player dts p = p\<lparr>invincibleTimer := invincibleTimer p - sum_list dts\<rparr>"
  using assms
proof (induction dts arbitrary: p)
  case Nil
  then show ?case by simp
next
  case (Cons d ds)
  have "sum_list (take 1 (d # ds)) < invincibleTimer p"
    using Cons.prems(2) by (metis One_nat_def le_refl length_Cons le_add1 plus_1_eq_Suc)
  then have d: "d < invincibleTimer p" by simp
  let ?p = "p\<lparr>invincibleTimer := invincibleTimer p - d\<rparr>"
  have step: "update_player d p = ?p"
    using Cons.prems(1) d by (simp add: update_player_def Let_def)
  have "\<forall>k. 1 \<le> k \<and> k \<le> length ds \<longrightarrow> sum_list (take k ds) < invincibleTimer ?p"
  proof (intro allI impI)
    fix k assume k: "1 \<le> k \<and> k \<le> length ds"
    then have "sum_list (take (Suc k) (d # ds)) < invincibleTimer p"
      using Cons.prems(2) by (metis Suc_le_mono le_SucI length_Cons One_nat_def)
    then show "sum_list (take k ds) < invincibleTimer ?p" by simp
  qed
  then have "fold update_player ds ?p = ?p\<lparr>invincibleTimer := invincibleTimer ?p - sum_list ds\<rparr>"
    using Cons.prems(1) by (intro Cons.IH) simp_all
  then show ?case
    by (simp add: step algebra_simps)
qed

lemma fold_update_player_not_invincible:
  "\<not> invincible p \<Longrightarrow> fold update_player dts p = p"
  by (induction dts) (simp_all add: update_player_def)

lemma fold_update_player_elapsed:
  assumes "invincible p" and "0 < invincibleTimer p" and "invincibleTimer p \<le> sum_list dts"
  shows "\<not> invincible (fold update_player dts p)"
  using assms
proof (induction dts arbitrary: p)
  case Nil
  then show ?case by simp
next
  case (Cons d ds)
  show ?case
  proof (cases "invincibleTimer p - d \<le> 0")
    case True
    then have "\<not> invincible (update_player d p)"
      using Cons.prems(1) by (simp add: update_player_def Let_def)
    then show ?thesis
      by (simp add: fold_update_player_not_invincible)
  next
    case False
    then have "update_player d p = p\<lparr>invincibleTimer := invincibleTimer p - d\<rparr>"
      using Cons.prems(1) by (simp add: update_player_def Let_def)
    moreover have "\<not> invincible (fold update_player ds (p\<lparr>invincibleTimer := invincibleTimer p - d\<rparr>))"
      using Cons.prems False by (intro Cons.IH) simp_all
    ultimately show ?thesis by simp
  qed
qed

text \<open>
  C2. In the collision phase of a tick, if the player is not invincible and an active
  hostile is within 0.8 of the player on both axes, the player loses exactly
  \<open>ENEMY_DAMAGE\<close> hit points (however many hostiles touch it), becomes invincible and
  its countdown is set to 500 ms. While the player is invincible the collision phase
  leaves the player unchanged, so a contact costs nothing. From the state after a
  hit, as long as the time steps of the updates add up to less than 500 ms the player
  is still invincible, with the countdown reduced by the elapsed time; once they add
  up to 500 ms or more the player is no longer invincible, so that the next contact
  costs \<open>ENEMY_DAMAGE\<close> again. The updates never change the hit points.
\<close>

theorem C2_invincibility:
  "(\<not> invincible (player g) \<and> hostileContact g \<longrightarrow>
      player (checkCollisions g) =
        (player g)\<lparr>hp := hp (player g) - ENEMY_DAMAGE, invincible := True,
                    invincibleTimer := 500\<rparr>)
   \<and> (invincible (player g) \<longrightarrow> player (checkCollisions g) = player g)
   \<and> (invincible p \<and> invincibleTimer p = 500 \<and>
        (\<forall>k. 1 \<le> k \<and> k \<le> length dts \<longrightarrow> sum_list (take k dts) < 500) \<longrightarrow>
        invincible (fold update_player dts p) \<and>
        invincibleTimer (fold update_player dts p) = 500 - sum_list dts \<and>
        hp (fold update_player dts p) = hp p)
   \<and> (invincible p \<and> invincibleTimer p = 500 \<and> 500 \<le> sum_list dts \<longrightarrow>
        \<not> invincible (fold update_player dts p) \<and> hp (fold update_player dts p) = hp p)"
proof (intro conjI impI)
  assume "\<not> invincible (player g) \<and> hostileContact g"
  then show "player (checkCollisions g) =
        (player g)\<lparr>hp := hp (player g) - ENEMY_DAMAGE, invincible := True,
                    invincibleTimer := 500\<rparr>"
    by (simp add: player_checkCollisions hostileContact_iff playerVsEnemies_damage)
next
  assume "invincible (player g)"
  then show "player (checkCollisions g) = player g"
    by (simp add: player_checkCollisions playerVsEnemies_invincible)
next
  assume a: "invincible p \<and> invincibleTimer p = 500 \<and>
        (\<forall>k. 1 \<le> k \<and> k \<le> length dts \<longrightarrow> sum_list (take k dts) < 500)"
  then have "fold update_player dts p = p\<lparr>invincibleTimer := invincibleTimer p - sum_list dts\<rparr>"
    by (intro fold_update_player_running) simp_all
  with a show "invincible (fold update_player dts p)"
    and "invincibleTimer (fold update_player dts p) = 500 - sum_list dts"
    by simp_all
next
  assume "invincible p \<and> invincibleTimer p = 500 \<and> 500 \<le> sum_list dts"
  then show "\<not> invincible (fold update_player dts p)"
    by (intro fold_update_player_elapsed) simp_all
qed simp_all

theorem C2_invincibility_witness:
  "\<not> invincible (player contact_game) \<and> hostileContact contact_game
   \<and> hp (player contact_game) = 100
   \<and> hp (player (checkCollisions contact_game)) = 90
   \<and> invincible (player (checkCollisions contact_game))
   \<and> hp (player (checkCollisions (checkCollisions contact_game))) = 90
   \<and> invincible (fold update_player [200, 200] (player (checkCollisions contact_game)))
   \<and> \<not> invincible (fold update_player [200, 200, 116] (player (checkCollisions contact_game)))
   \<and> hp (player (checkCollisions (contact_game\<lparr>player :=
          fold update_player [200, 200, 116] (player (checkCollisions contact_game))\<rparr>))) = 80"
proof -
  let ?p1 = "player (checkCollisions contact_game)"
  let ?p2 = "fold update_player [200, 200, 116] ?p1"
  let ?g2 = "contact_game\<lparr>player := ?p2\<rparr>"
  have fresh: "\<not> invincible (player contact_game) \<and> hostileContact contact_game"
    by (simp add: hostileContact_def contact_game_def new_Enemy_def new_Player_def)
  have hp0: "hp (player contact_game) = 100"
    by (simp add: contact_game_def new_Player_def PLAYER_MAX_HP_def)
  have p1: "?p1 = (player contact_game)\<lparr>hp := 90, invincible := True, invincibleTimer := 500\<rparr>"
    using C2_invincibility [of contact_game ?p1 "[]"] fresh hp0
    by (simp add: ENEMY_DAMAGE_def)
  have again: "player (checkCollisions (checkCollisions contact_game)) = ?p1"
    using C2_invincibility [of "checkCollisions contact_game" ?p1 "[]"] p1 by simp
  have prefixes: "\<forall>k. 1 \<le> k \<and> k \<le> length [200, 200 :: real] \<longrightarrow>
      sum_list (take k [200, 200 :: real]) < 500"
  proof (intro allI impI)
    fix k :: nat
    assume "1 \<le> k \<and> k \<le> length [200, 200 :: real]"
    then have "k = 1 \<or> k = 2" by auto
    then show "sum_list (take k [200, 200 :: real]) < 500" by auto
  qed
  have running: "invincible (fold update_player [200, 200] ?p1)"
    using C2_invincibility [of contact_game ?p1 "[200, 200]"] p1 prefixes by simp
  have elapsed: "\<not> invincible ?p2 \<and> hp ?p2 = 90"
    using C2_invincibility [of contact_game ?p1 "[200, 200, 116]"] p1 by simp
  have "xpos ?p1 = 15 \<and> ypos ?p1 = 7"
    using p1 by (simp add: contact_game_def new_Player_def)
  then have xy: "xpos ?p2 = 15 \<and> ypos ?p2 = 7"
    by (simp add: update_player_def Let_def)
  have "hostileContact ?g2"
    using xy by (simp add: hostileContact_def contact_game_def new_Enemy_def)
  then have third: "hp (player (checkCollisions ?g2)) = 80"
    using C2_invincibility [of ?g2 ?p1 "[]"] elapsed by (simp add: ENEMY_DAMAGE_def)
  show ?thesis
    using fresh hp0 p1 again running elapsed third by simp
qed

subsection \<open>Arena bounds\<close>

lemma handleInput_bounds:
  "0 \<le> xpos (handleInput ks dt p) \<and> xpos (handleInput ks dt p) \<le> real CANVAS_WIDTH - 1
   \<and> 0 \<le> ypos (handleInput ks dt p) \<and> ypos (handleInput ks dt p) \<le> real CANVAS_HEIGHT - 1"
  by (simp add: handleInput_def Let_def CANVAS_WIDTH_def CANVAS_HEIGHT_def split del: if_split)

lemma update_player_pos [simp]:
  "xpos (update_player dt p) = xpos p" "ypos (update_player dt p) = ypos p"
  by (simp_all add: update_player_def Let_def)

lemma attack_pos [simp]:
  "xpos (snd (attack now p)) = xpos p" "ypos (snd (attack now p)) = ypos p"
  by (simp_all add: attack_def Let_def)

lemma update_enemy_bounds:
  "0 \<le> xpos (update_enemy dt p e) \<and> xpos (update_enemy dt p e) \<le> real CANVAS_WIDTH - 1
   \<and> 0 \<le> ypos (update_enemy dt p e) \<and> ypos (update_enemy dt p e) \<le> real CANVAS_HEIGHT - 1"
  by (simp add: update_enemy_def Let_def CANVAS_WIDTH_def CANVAS_HEIGHT_def)

lemma update_projectile_bounds:
  "active (update_projectile dt q) \<Longrightarrow>
     0 \<le> xpos (update_projectile dt q) \<and> xpos (update_projectile dt q) < real CANVAS_WIDTH
     \<and> 0 \<le> ypos (update_projectile dt q) \<and> ypos (update_projectile dt q) < real CANVAS_HEIGHT"
  by (auto simp: update_projectile_def Let_def split: if_splits)

lemma player_moveEntities_pos:
  "xpos (player (moveEntities dt now g)) = xpos (handleInput (keys g) dt (player g))"
  "ypos (player (moveEntities dt now g)) = ypos (handleInput (keys g) dt (player g))"
  by (simp_all add: moveEntities_def Let_def attack_def split: prod.splits)

lemma enemies_moveEntities:
  "\<exists>p. enemies (moveEntities dt now g) = map (update_enemy dt p) (enemies g)"
  by (auto simp: moveEntities_def Let_def split: prod.splits)

lemma projectiles_moveEntities:
  "\<exists>qs. projectiles (moveEntities dt now g) = map (update_projectile dt) qs"
proof (cases "canAttack now (handleInput (keys g) dt (player g))")
  case True
  then have "projectiles (moveEntities dt now g) =
      map (update_projectile dt)
        (projectiles g @ [fst (attack now (handleInput (keys g) dt (player g)))])"
    by (simp add: moveEntities_def Let_def split: prod.splits)
  then show ?thesis by blast
next
  case False
  then have "projectiles (moveEntities dt now g) = map (update_projectile dt) (projectiles g)"
    by (simp add: moveEntities_def Let_def split: prod.splits)
  then show ?thesis by blast
qed

text \<open>
  C1 (as amended). After the movement steps of a tick (input, auto-attack, update of
  the entities) the player and every hostile have \<open>0 \<le> x \<le> W - 1\<close> and
  \<open>0 \<le> y \<le> H - 1\<close>, and every projectile that is still active has \<open>0 \<le> x < W\<close>
  and \<open>0 \<le> y < H\<close>, with \<open>W = 30\<close> and \<open>H = 15\<close>.
\<close>

theorem C1_bounds_after_movement:
  "0 \<le> xpos (player (moveEntities dt now g))
   \<and> xpos (player (moveEntities dt now g)) \<le> real CANVAS_WIDTH - 1
   \<and> 0 \<le> ypos (player (moveEntities dt now g))
   \<and> ypos (player (moveEntities dt now g)) \<le> real CANVAS_HEIGHT - 1
   \<and> (\<forall>e \<in> set (enemies (moveEntities dt now g)).
         0 \<le> xpos e \<and> xpos e \<le> real CANVAS_WIDTH - 1 \<and>
         0 \<le> ypos e \<and> ypos e \<le> real CANVAS_HEIGHT - 1)
   \<and> (\<forall>q \<in> set (projectiles (moveEntities dt now g)). active q \<longrightarrow>
         0 \<le> xpos q \<and> xpos q < real CANVAS_WIDTH \<and>
         0 \<le> ypos q \<and> ypos q < real CANVAS_HEIGHT)"
proof -
  obtain p where es: "enemies (moveEntities dt now g) = map (update_enemy dt p) (enemies g)"
    using enemies_moveEntities by blast
  obtain qs where qs: "projectiles (moveEntities dt now g) = map (update_projectile dt) qs"
    using projectiles_moveEntities by blast
  have hostiles: "\<forall>e \<in> set (enemies (moveEntities dt now g)).
         0 \<le> xpos e \<and> xpos e \<le> real CANVAS_WIDTH - 1 \<and>
         0 \<le> ypos e \<and> ypos e \<le> real CANVAS_HEIGHT - 1"
  proof
    fix e assume "e \<in> set (enemies (moveEntities dt now g))"
    then obtain e0 where "e = update_enemy dt p e0"
      unfolding es by auto
    then show "0 \<le> xpos e \<and> xpos e \<le> real CANVAS_WIDTH - 1 \<and>
         0 \<le> ypos e \<and> ypos e \<le> real CANVAS_HEIGHT - 1"
      using update_enemy_bounds [of dt p e0] by simp
  qed
  have shots: "\<forall>q \<in> set (projectiles (moveEntities dt now g)). active q \<longrightarrow>
         0 \<le> xpos q \<and> xpos q < real CANVAS_WIDTH \<and>
         0 \<le> ypos q \<and> ypos q < real CANVAS_HEIGHT"
  proof (intro ballI impI)
    fix q assume "q \<in> set (projectiles (moveEntities dt now g))" and act: "active q"
    then obtain q0 where "q = update_projectile dt q0"
      unfolding qs by auto
    then show "0 \<le> xpos q \<and> xpos q < real CANVAS_WIDTH \<and>
         0 \<le> ypos q \<and> ypos q < real CANVAS_HEIGHT"
      using update_projectile_bounds [of dt q0] act by simp
  qed
  have self: "0 \<le> xpos (player (moveEntities dt now g))
   \<and> xpos (player (moveEntities dt now g)) \<le> real CANVAS_WIDTH - 1
   \<and> 0 \<le> ypos (player (moveEntities dt now g))
   \<and> ypos (player (moveEntities dt now g)) \<le> real CANVAS_HEIGHT - 1"
    using handleInput_bounds [of "keys g" dt "player g"]
    by (simp only: player_moveEntities_pos)
  show ?thesis
    using self hostiles shots by blast
qed


theorem C1_bounds_after_movement_witness:
  "enemies (moveEntities 16 100 crowded_game) ! 0 \<in> set (enemies (moveEntities 16 100 crowded_game))
   \<and> projectiles (moveEntities 16 100 crowded_game) ! 0
        \<in> set (projectiles (moveEntities 16 100 crowded_game))
   \<and> active (projectiles (moveEntities 16 100 crowded_game) ! 0)
   \<and> xpos (player (moveEntities 16 100 crowded_game)) \<le> 29
   \<and> 0 \<le> xpos (enemies (moveEntities 16 100 crowded_game) ! 0)
   \<and> xpos (enemies (moveEntities 16 100 crowded_game) ! 0) \<le> 29
   \<and> 0 \<le> ypos (enemies (moveEntities 16 100 crowded_game) ! 0)
   \<and> ypos (enemies (moveEntities 16 100 crowded_game) ! 0) \<le> 14
   \<and> 0 \<le> xpos (projectiles (moveEntities 16 100 crowded_game) ! 0)
   \<and> xpos (projectiles (moveEntities 16 100 crowded_game) ! 0) < 30
   \<and> 0 \<le> ypos (projectiles (moveEntities 16 100 crowded_game) ! 0)
   \<and> ypos (projectiles (moveEntities 16 100 crowded_game) ! 0) < 15"
proof -
  let ?g = "moveEntities 16 100 crowded_game"
  have len: "length (enemies ?g) = 6 \<and> length (projectiles ?g) = 1"
    by (simp add: moveEntities_def crowded_game_def Let_def canAttack_def handleInput_def
        new_Player_def ATTACK_COOLDOWN_def)
  then have e: "enemies ?g ! 0 \<in> set (enemies ?g)"
    and q: "projectiles ?g ! 0 \<in> set (projectiles ?g)"
    by (simp_all only: nth_mem zero_less_numeral zero_less_one)
  have a: "active (projectiles ?g ! 0)"
    by (simp add: moveEntities_def crowded_game_def Let_def canAttack_def handleInput_def
        new_Player_def new_Projectile_def update_projectile_def ATTACK_COOLDOWN_def
        PROJECTILE_SPEED_def CANVAS_WIDTH_def CANVAS_HEIGHT_def)
  show ?thesis
    using C1_bounds_after_movement [of 16 100 crowded_game] e q a
    by (simp add: CANVAS_WIDTH_def CANVAS_HEIGHT_def)
qed

text \<open>
  C1 as stated fails for projectiles, which are not clamped: the player at
  \<open>x = 28.6\<close> facing right fires; the projectile starts at \<open>x = 29.1\<close>, moves to
  \<open>29.58\<close> in a tick of 16 ms and is still active, beyond \<open>W - 1 = 29\<close>.
\<close>

theorem C1_counterexample:
  "length (projectiles (moveEntities 16 1000 edge_game)) = 1
   \<and> active (projectiles (moveEntities 16 1000 edge_game) ! 0)
   \<and> xpos (projectiles (moveEntities 16 1000 edge_game) ! 0) = 29.58
   \<and> \<not> xpos (projectiles (moveEntities 16 1000 edge_game) ! 0) \<le> real CANVAS_WIDTH - 1"
  by (simp add: moveEntities_def edge_game_def Let_def handleInput_def canAttack_def attack_def
      new_Player_def new_Projectile_def update_projectile_def update_player_def
      PLAYER_SPEED_def PROJECTILE_SPEED_def ATTACK_COOLDOWN_def CANVAS_WIDTH_def CANVAS_HEIGHT_def)

subsection \<open>Wave system\<close>

lemma wave_updateWave:
  "wave (updateWave dt r1 r2 g) = (if WAVE_DURATION \<le> waveTimer g + dt then wave g + 1 else wave g)"
  by (simp add: updateWave_def Let_def spawnEnemy_def split: prod.splits)

lemma waveTimer_updateWave:
  "waveTimer (updateWave dt r1 r2 g) = (if WAVE_DURATION \<le> waveTimer g + dt then 0 else waveTimer g + dt)"
  by (simp add: updateWave_def Let_def spawnEnemy_def split: prod.splits)

lemma updateWaves_before_rollover:
  assumes "\<forall>t \<in> set ticks. 0 < fst t"
    and "waveTimer g + sum_list (map fst ticks) < WAVE_DURATION"
  shows "wave (updateWaves ticks g) = wave g
       \<and> waveTimer (updateWaves ticks g) = waveTimer g + sum_list (map fst ticks)"
  using assms
proof (induction ticks arbitrary: g)
  case Nil
  then show ?case by (simp add: updateWaves_def)
next
  case (Cons t ticks)
  let ?g = "updateWave (fst t) (fst (snd t)) (snd (snd t)) g"
  have "0 \<le> sum_list (map fst ticks)"
    using Cons.prems(1) by (intro sum_list_nonneg) auto
  then have no: "\<not> WAVE_DURATION \<le> waveTimer g + fst t"
    using Cons.prems(2) by simp
  have g: "wave ?g = wave g" "waveTimer ?g = waveTimer g + fst t"
    using no by (simp_all add: wave_updateWave waveTimer_updateWave)
  have "wave (updateWaves ticks ?g) = wave ?g
       \<and> waveTimer (updateWaves ticks ?g) = waveTimer ?g + sum_list (map fst ticks)"
    using Cons.prems by (intro Cons.IH) (simp_all add: g)
  then show ?case
    by (simp add: updateWaves_def g)
qed

lemma updateWaves_at_duration:
  assumes "\<forall>t \<in> set ticks. 0 < fst t"
    and "waveTimer g + sum_list (map fst ticks) = WAVE_DURATION"
    and "waveTimer g < WAVE_DURATION"
  shows "wave (updateWaves ticks g) = wave g + 1 \<and> waveTimer (updateWaves ticks g) = 0"
proof -
  have "ticks \<noteq> []"
    using assms(2,3) by auto
  then obtain ts t where ticks: "ticks = ts @ [t]"
    by (meson rev_exhaust)
  have t: "0 < fst t" using assms(1) ticks by simp
  have before: "wave (updateWaves ts g) = wave g
       \<and> waveTimer (updateWaves ts g) = waveTimer g + sum_list (map fst ts)"
    using assms(1,2) t by (intro updateWaves_before_rollover) (simp_all add: ticks)
  have "updateWaves ticks g = updateWave (fst t) (fst (snd t)) (snd (snd t)) (updateWaves ts g)"
    by (simp add: updateWaves_def ticks)
  then show ?thesis
    using before assms(2) by (simp add: wave_updateWave waveTimer_updateWave ticks)
qed

text \<open>
  C5 (as amended). When the wave timer, advanced by \<open>dt\<close>, reaches the wave duration
  of 20000 ms, the update increments the wave number by 1 and resets the wave timer
  to zero; the spawn counter of the wave is reset to 0 before the spawn check of the
  same update, so after the update it is 1 if that update spawned a hostile and 0
  otherwise. In particular, from wave 1 with the wave timer at zero, after ticks with
  positive time steps that add up to exactly 20000 ms the wave number is 2 and the
  wave timer is zero.
\<close>

theorem C5_wave_rollover:
  "(WAVE_DURATION \<le> waveTimer g + dt \<longrightarrow>
      wave (updateWave dt r1 r2 g) = wave g + 1
      \<and> waveTimer (updateWave dt r1 r2 g) = 0
      \<and> enemiesSpawnedThisWave (updateWave dt r1 r2 g) =
          (if length (enemies (updateWave dt r1 r2 g)) = length (enemies g) + 1 then 1 else 0))
   \<and> (wave g = 1 \<and> waveTimer g = 0 \<and> (\<forall>t \<in> set ticks. 0 < fst t)
        \<and> sum_list (map fst ticks) = 20000 \<longrightarrow>
      wave (updateWaves ticks g) = 2 \<and> waveTimer (updateWaves ticks g) = 0)"
proof (intro conjI impI)
  assume "wave g = 1 \<and> waveTimer g = 0 \<and> (\<forall>t \<in> set ticks. 0 < fst t)
        \<and> sum_list (map fst ticks) = 20000"
  then have "wave (updateWaves ticks g) = wave g + 1 \<and> waveTimer (updateWaves ticks g) = 0"
    by (intro updateWaves_at_duration) (simp_all add: WAVE_DURATION_def)
  then show "wave (updateWaves ticks g) = 2" "waveTimer (updateWaves ticks g) = 0"
    using \<open>wave g = 1 \<and> _\<close> by simp_all
qed (simp_all add: updateWave_def Let_def spawnEnemy_def split: prod.splits)

theorem C5_wave_rollover_witness:
  "WAVE_DURATION \<le> waveTimer rollover_game + 16
   \<and> wave (updateWave 16 0.1 0.5 rollover_game) = 2
   \<and> waveTimer (updateWave 16 0.1 0.5 rollover_game) = 0
   \<and> wave (new_VampireGame True 0) = 1 \<and> waveTimer (new_VampireGame True 0) = 0
   \<and> 0 < fst (12000 :: real, 0.1 :: real, 0.5 :: real)
   \<and> 0 < fst (7984 :: real, 0.3 :: real, 0.2 :: real)
   \<and> 0 < fst (16 :: real, 0.6 :: real, 0.9 :: real)
   \<and> sum_list (map fst [(12000, 0.1, 0.5), (7984, 0.3, 0.2), (16 :: real, 0.6 :: real, 0.9 :: real)]) = 20000
   \<and> wave (updateWaves [(12000, 0.1, 0.5), (7984, 0.3, 0.2), (16, 0.6, 0.9)]
             (new_VampireGame True 0)) = 2
   \<and> waveTimer (updateWaves [(12000, 0.1, 0.5), (7984, 0.3, 0.2), (16, 0.6, 0.9)]
             (new_VampireGame True 0)) = 0"
proof -
  have r: "WAVE_DURATION \<le> waveTimer rollover_game + 16 \<and> wave rollover_game = 1"
    by (simp add: rollover_game_def WAVE_DURATION_def)
  have n: "wave (new_VampireGame True 0) = 1 \<and> waveTimer (new_VampireGame True 0) = 0"
    by (simp add: new_VampireGame_def init_def render_def Let_def)
  show ?thesis
    using C5_wave_rollover [where g = rollover_game and dt = 16 and ?r1.0 = "0.1" and ?r2.0 = "0.5"
        and ticks = "[]"]
      C5_wave_rollover [where g = "new_VampireGame True 0" and dt = 16 and ?r1.0 = "0.1"
        and ?r2.0 = "0.5" and ticks = "[(12000, 0.1, 0.5), (7984, 0.3, 0.2), (16, 0.6, 0.9)]"] r n
    by simp
qed

text \<open>
  C5 as stated fails on the counter: 16 ms before the end of wave 1, with the spawn
  timer at 1984 ms and no hostile, the update that starts wave 2 also spawns a
  hostile, and the counter is 1 after it.
\<close>

theorem C5_counterexample:
  "WAVE_DURATION \<le> waveTimer rollover_game + 16
   \<and> enemiesSpawnedThisWave (updateWave 16 0.1 0.5 rollover_game) = 1
   \<and> enemiesSpawnedThisWave (updateWave 16 0.1 0.5 rollover_game) \<noteq> 0"
  by (simp add: updateWave_def rollover_game_def Let_def WAVE_DURATION_def spawnRate_def
      maxEnemies_def MIN_SPAWN_RATE_def BASE_SPAWN_RATE_def spawnEnemy_def split: prod.splits)

text \<open>
  C4 (as amended). An update of the wave system spawns a hostile exactly when the
  spawn timer, advanced by \<open>dt\<close>, has reached the spawn interval of the current wave
  and the length of the array of hostiles is strictly below twice
  \<open>3 + (wave - 1) * 2\<close>, the wave being the one after a wave change of the same
  update. The array still holds the hostiles deactivated earlier in the tick, since
  the cleanup runs after the wave update. An update that does not spawn leaves the
  array as it is, and a spawn appends one hostile.
\<close>

theorem C4_spawn_condition:
  "(length (enemies (updateWave dt r1 r2 g)) = length (enemies g) + 1 \<longleftrightarrow>
      spawnRate (wave (updateWave dt r1 r2 g)) \<le> spawnTimer g + dt \<and>
      int (length (enemies g)) < maxEnemies (wave (updateWave dt r1 r2 g)) * 2)
   \<and> (length (enemies (updateWave dt r1 r2 g)) \<noteq> length (enemies g) + 1 \<longrightarrow>
        enemies (updateWave dt r1 r2 g) = enemies g)
   \<and> take (length (enemies g)) (enemies (updateWave dt r1 r2 g)) = enemies g"
  by (simp add: updateWave_def Let_def spawnEnemy_def split: prod.splits)

theorem C4_spawn_condition_witness:
  "spawnRate (wave (updateWave 16 0.1 0.5 rollover_game)) \<le> spawnTimer rollover_game + 16
   \<and> int (length (enemies rollover_game)) < maxEnemies (wave (updateWave 16 0.1 0.5 rollover_game)) * 2
   \<and> length (enemies (updateWave 16 0.1 0.5 rollover_game)) = 1
   \<and> length (enemies (updateWave 16 0.1 0.5 (new_VampireGame True 0))) \<noteq> 1
   \<and> enemies (updateWave 16 0.1 0.5 (new_VampireGame True 0)) = []"
proof -
  have w: "wave (updateWave 16 0.1 0.5 rollover_game) = 2
      \<and> spawnTimer rollover_game = 1984 \<and> enemies rollover_game = []"
    by (simp add: wave_updateWave rollover_game_def WAVE_DURATION_def)
  have n: "wave (updateWave 16 0.1 0.5 (new_VampireGame True 0)) = 1
      \<and> spawnTimer (new_VampireGame True 0) = 0 \<and> enemies (new_VampireGame True 0) = []"
    by (simp add: wave_updateWave new_VampireGame_def init_def render_def Let_def WAVE_DURATION_def)
  show ?thesis
    using C4_spawn_condition [where g = rollover_game and dt = 16 and ?r1.0 = "0.1" and ?r2.0 = "0.5"]
      C4_spawn_condition [where g = "new_VampireGame True 0" and dt = 16 and ?r1.0 = "0.1"
        and ?r2.0 = "0.5"] w n
    by (simp add: spawnRate_def maxEnemies_def MIN_SPAWN_RATE_def BASE_SPAWN_RATE_def)
qed

lemma crowded:
  "enemies (checkCollisions crowded_game) =
     [(new_Enemy 20 7)\<lparr>ehp := 0, active := False\<rparr>, new_Enemy 3 2, new_Enemy 25 12,
      new_Enemy 8 13, new_Enemy 1 7, new_Enemy 28 1]"
  by (simp add: crowded_game_def checkCollisions_def activeIndices_def new_Enemy_def
      new_Projectile_def new_Player_def Let_def upt_rec enemy_takeDamage_def)

text \<open>
  C4 as stated fails when a hostile has died in the same tick: with six hostiles in
  wave 1, one of them killed by a projectile in the collision phase, five hostiles
  are active, which is below the bound of six, and the spawn timer has elapsed, yet
  the update spawns nothing, since the array still has six entries.
\<close>

theorem C4_counterexample:
  "spawnRate (wave (updateWave 16 0.3 0.5 (checkCollisions crowded_game)))
      \<le> spawnTimer (checkCollisions crowded_game) + 16
   \<and> int (length (filter active (enemies (checkCollisions crowded_game))))
      < maxEnemies (wave (updateWave 16 0.3 0.5 (checkCollisions crowded_game))) * 2
   \<and> enemies (updateWave 16 0.3 0.5 (checkCollisions crowded_game))
      = enemies (checkCollisions crowded_game)"
proof -
  have other: "wave (checkCollisions crowded_game) = 1
      \<and> waveTimer (checkCollisions crowded_game) = 13990
      \<and> spawnTimer (checkCollisions crowded_game) = 1990"
    by (simp add: crowded_game_def checkCollisions_def activeIndices_def new_Enemy_def
      new_Projectile_def new_Player_def Let_def upt_rec enemy_takeDamage_def)
  show ?thesis
    by (simp add: crowded other updateWave_def Let_def WAVE_DURATION_def spawnRate_def
        maxEnemies_def MIN_SPAWN_RATE_def BASE_SPAWN_RATE_def new_Enemy_def)
qed

subsection \<open>Selective rendering\<close>

lemma cell_differs:
  "(cell_char (a::cell) \<noteq> cell_char b \<or> cell_class a \<noteq> cell_class b) \<longleftrightarrow> a \<noteq> b"
  by (cases a, cases b) auto

lemma updateCell_eq:
  "updateCell grid r c (prev, ws) =
     (prev[r := (prev ! r)[c := grid ! r ! c]],
      ws @ (if grid ! r ! c \<noteq> prev ! r ! c then [(r, c, grid ! r ! c)] else []))"
proof (cases "grid ! r ! c = prev ! r ! c")
  case True
  then show ?thesis
    by (simp add: updateCell_def Let_def)
next
  case False
  have rebuild: "\<lparr>cell_char = cell_char (grid ! r ! c), cell_class = cell_class (grid ! r ! c)\<rparr>
      = grid ! r ! c"
    by simp
  show ?thesis
    using False cell_differs [of "grid ! r ! c" "prev ! r ! c"]
    by (simp add: updateCell_def Let_def rebuild)
qed

lemma take_drop_update:
  assumes "n < length g" and "n < length p"
  shows "(take n g @ drop n p)[n := g ! n] = take (Suc n) g @ drop (Suc n) p"
proof -
  have "(take n g @ drop n p)[n := g ! n] = take n g @ (drop n p)[0 := g ! n]"
    using assms by (simp add: list_update_append)
  also have "(drop n p)[0 := g ! n] = g ! n # drop (Suc n) p"
    using assms by (metis Cons_nth_drop_Suc list_update_code(2))
  finally show ?thesis
    using assms by (simp add: take_Suc_conv_app_nth)
qed

lemma take_drop_nth:
  assumes "n \<le> length g" and "n < length p"
  shows "(take n g @ drop n p) ! n = p ! n"
  using assms by (simp add: nth_append)

lemma fold_row:
  assumes "r < length prev" and "n \<le> length (grid ! r)" and "n \<le> length (prev ! r)"
  shows "fold (\<lambda>c. updateCell grid r c) [0..<n] (prev, ws) =
           (prev[r := take n (grid ! r) @ drop n (prev ! r)],
            ws @ map (\<lambda>c. (r, c, grid ! r ! c))
                     (filter (\<lambda>c. grid ! r ! c \<noteq> prev ! r ! c) [0..<n]))"
  using assms
proof (induction n)
  case 0
  then show ?case by simp
next
  case (Suc n)
  let ?prev = "prev[r := take n (grid ! r) @ drop n (prev ! r)]"
  have row: "?prev ! r = take n (grid ! r) @ drop n (prev ! r)"
    using Suc.prems(1) by simp
  have old: "?prev ! r ! n = prev ! r ! n"
    using Suc.prems by (simp add: row take_drop_nth)
  have new: "(?prev ! r)[n := grid ! r ! n] =
      take (Suc n) (grid ! r) @ drop (Suc n) (prev ! r)"
    using Suc.prems by (simp add: row take_drop_update)
  have "fold (\<lambda>c. updateCell grid r c) [0..<Suc n] (prev, ws) =
      updateCell grid r n (fold (\<lambda>c. updateCell grid r c) [0..<n] (prev, ws))"
    by simp
  also have "\<dots> = updateCell grid r n
      (?prev, ws @ map (\<lambda>c. (r, c, grid ! r ! c))
                     (filter (\<lambda>c. grid ! r ! c \<noteq> prev ! r ! c) [0..<n]))"
    using Suc by simp
  finally show ?case
    by (simp add: updateCell_eq old new del: upt_Suc) simp
qed

lemma fold_full_row:
  assumes "r < length prev" and "length (grid ! r) = CANVAS_WIDTH"
    and "length (prev ! r) = CANVAS_WIDTH"
  shows "fold (\<lambda>c. updateCell grid r c) [0..<CANVAS_WIDTH] (prev, ws) =
           (prev[r := grid ! r],
            ws @ map (\<lambda>c. (r, c, grid ! r ! c))
                     (filter (\<lambda>c. grid ! r ! c \<noteq> prev ! r ! c) [0..<CANVAS_WIDTH]))"
  using fold_row [of r prev CANVAS_WIDTH grid ws] assms by simp

lemma fold_rows:
  assumes "m \<le> length grid" and "m \<le> length prev"
    and "\<forall>r < m. length (grid ! r) = CANVAS_WIDTH \<and> length (prev ! r) = CANVAS_WIDTH"
  shows "fold (\<lambda>r. fold (\<lambda>c. updateCell grid r c) [0..<CANVAS_WIDTH]) [0..<m] (prev, ws) =
           (take m grid @ drop m prev,
            ws @ concat (map (\<lambda>r. map (\<lambda>c. (r, c, grid ! r ! c))
                     (filter (\<lambda>c. grid ! r ! c \<noteq> prev ! r ! c) [0..<CANVAS_WIDTH])) [0..<m]))"
  using assms
proof (induction m)
  case 0
  then show ?case by simp
next
  case (Suc m)
  let ?prev = "take m grid @ drop m prev"
  let ?ws = "ws @ concat (map (\<lambda>r. map (\<lambda>c. (r, c, grid ! r ! c))
                     (filter (\<lambda>c. grid ! r ! c \<noteq> prev ! r ! c) [0..<CANVAS_WIDTH])) [0..<m])"
  have IH: "fold (\<lambda>r. fold (\<lambda>c. updateCell grid r c) [0..<CANVAS_WIDTH]) [0..<m] (prev, ws) =
      (?prev, ?ws)"
    using Suc by simp
  have len: "m < length ?prev"
    using Suc.prems by simp
  have row: "?prev ! m = prev ! m"
    using Suc.prems by (simp add: take_drop_nth)
  have lens: "length (grid ! m) = CANVAS_WIDTH" "length (?prev ! m) = CANVAS_WIDTH"
    using Suc.prems(3) row by simp_all
  have upd: "?prev[m := grid ! m] = take (Suc m) grid @ drop (Suc m) prev"
    using Suc.prems by (simp add: take_drop_update)
  have "fold (\<lambda>r. fold (\<lambda>c. updateCell grid r c) [0..<CANVAS_WIDTH]) [0..<Suc m] (prev, ws) =
      fold (\<lambda>c. updateCell grid m c) [0..<CANVAS_WIDTH] (?prev, ?ws)"
    by (simp add: IH)
  also have "\<dots> = (?prev[m := grid ! m],
      ?ws @ map (\<lambda>c. (m, c, grid ! m ! c))
                     (filter (\<lambda>c. grid ! m ! c \<noteq> ?prev ! m ! c) [0..<CANVAS_WIDTH]))"
    using len lens by (rule fold_full_row)
  finally show ?case
    by (simp add: upd row)
qed

lemma selectiveUpdate_eq:
  assumes "wellFormedGrid grid" and "wellFormedGrid prev"
  shows "selectiveUpdate grid prev = (grid, changedCells grid prev)"
proof -
  have "\<forall>r < CANVAS_HEIGHT. length (grid ! r) = CANVAS_WIDTH \<and> length (prev ! r) = CANVAS_WIDTH"
    using assms by (simp add: wellFormedGrid_def list_all_length)
  then show ?thesis
    using assms fold_rows [of CANVAS_HEIGHT grid prev "[]"]
    by (simp add: selectiveUpdate_def changedCells_def wellFormedGrid_def)
qed

lemma changedCells_same: "changedCells grid grid = []"
  by (simp add: changedCells_def)

lemma in_changedCells:
  "(r, c, cl) \<in> set (changedCells grid prev) \<longleftrightarrow>
     r < CANVAS_HEIGHT \<and> c < CANVAS_WIDTH \<and> cl = grid ! r ! c \<and> grid ! r ! c \<noteq> prev ! r ! c"
  by (auto simp: changedCells_def)

lemma wellFormed_emptyGrid: "wellFormedGrid emptyGrid"
  by (simp add: wellFormedGrid_def emptyGrid_def list_all_length)

lemma wellFormed_setCell:
  assumes "wellFormedGrid gr"
  shows "wellFormedGrid (setCell pos cl gr)"
proof (cases "nat (snd pos) < length gr")
  case True
  then show ?thesis
    using assms by (auto simp: wellFormedGrid_def setCell_def list_all_length nth_list_update)
next
  case False
  then show ?thesis
    using assms by (simp add: setCell_def list_update_beyond)
qed

lemma wellFormed_draw: "wellFormedGrid gr \<Longrightarrow> wellFormedGrid (draw cls e gr)"
  by (simp add: draw_def Let_def wellFormed_setCell)

lemma wellFormed_fold_draw: "wellFormedGrid gr \<Longrightarrow> wellFormedGrid (fold (draw cls) es gr)"
  by (induction es arbitrary: gr) (simp_all add: wellFormed_draw)

lemma wellFormed_buildGrid: "wellFormedGrid (buildGrid now g)"
  by (simp add: buildGrid_def Let_def wellFormed_fold_draw wellFormed_setCell wellFormed_emptyGrid)

lemma render_eq:
  assumes "wellFormedGrid (prevGrid g)"
  shows "render now g =
    (g\<lparr>prevGrid := buildGrid now g\<rparr>, changedCells (buildGrid now g) (prevGrid g))"
  using assms by (simp add: render_def Let_def selectiveUpdate_eq wellFormed_buildGrid)

lemma draw_cong:
  "cellKey e = cellKey e' \<Longrightarrow> draw cls e gr = draw cls e' gr"
  by (simp add: draw_def cellKey_def Let_def)

lemma fold_draw_cong:
  "map cellKey es = map cellKey es' \<Longrightarrow> fold (draw cls) es gr = fold (draw cls) es' gr"
proof (induction es arbitrary: es' gr)
  case Nil
  then show ?case by simp
next
  case (Cons e es)
  then obtain e' rest where es': "es' = e' # rest" by (cases es') auto
  with Cons.prems have "cellKey e = cellKey e'" "map cellKey es = map cellKey rest"
    by simp_all
  then show ?case
    using Cons.IH [of rest] by (simp add: es' draw_cong [of e e'])
qed

lemma buildGrid_cong:
  assumes "map cellKey (xpGems g2) = map cellKey (xpGems g1)"
    and "map cellKey (projectiles g2) = map cellKey (projectiles g1)"
    and "map cellKey (enemies g2) = map cellKey (enemies g1)"
    and "cellKey (player g2) = cellKey (player g1)"
    and "\<not> invincible (player g1)" and "\<not> invincible (player g2)"
  shows "buildGrid now2 g2 = buildGrid now1 g1"
proof -
  have "getGridPos (player g2) = getGridPos (player g1)" "glyph_of (player g2) = glyph_of (player g1)"
    using assms(4) by (simp_all add: cellKey_def)
  then show ?thesis
    using assms(5,6)
    by (simp add: buildGrid_def Let_def fold_draw_cong [OF assms(1)] fold_draw_cong [OF assms(2)]
        fold_draw_cong [OF assms(3)])
qed


text \<open>
  The stored previous frame is well formed in every state of a game: it is so after
  \<^verbatim>\<open>init\<close>, only \<^verbatim>\<open>render\<close> changes it, and a tick keeps it so.
\<close>

lemma prevGrid_playerVsEnemies [simp]:
  "prevGrid (playerVsEnemies px py idxs g) = prevGrid g"
  by (induction idxs arbitrary: g) (simp_all add: Let_def split: prod.splits)

lemma prevGrid_projectileVsEnemies [simp]:
  "prevGrid (projectileVsEnemies j idxs g) = prevGrid g"
  by (induction idxs arbitrary: g) (simp_all add: Let_def split: prod.splits)

lemma prevGrid_projectilesVsEnemies [simp]:
  "prevGrid (projectilesVsEnemies js idxs g) = prevGrid g"
  by (induction js arbitrary: g) simp_all

lemma prevGrid_playerVsGems [simp]:
  "prevGrid (playerVsGems px py ks g) = prevGrid g"
  by (induction ks arbitrary: g) (simp_all add: Let_def)

lemma prevGrid_checkCollisions [simp]: "prevGrid (checkCollisions g) = prevGrid g"
  by (simp add: checkCollisions_def Let_def)

lemma prevGrid_updateWave [simp]: "prevGrid (updateWave dt r1 r2 g) = prevGrid g"
  by (simp add: updateWave_def Let_def spawnEnemy_def split: prod.splits)

lemma prevGrid_cleanup [simp]: "prevGrid (cleanup g) = prevGrid g"
  by (simp add: cleanup_def Let_def)

lemma prevGrid_moveEntities [simp]: "prevGrid (moveEntities dt now g) = prevGrid g"
  by (simp add: moveEntities_def Let_def split: prod.splits)

lemma wellFormed_init: "wellFormedGrid (prevGrid (fst (init now g)))"
  by (simp add: init_def render_eq wellFormed_emptyGrid wellFormed_buildGrid)

lemma wellFormed_new_VampireGame: "wellFormedGrid (prevGrid (new_VampireGame sf now))"
  unfolding new_VampireGame_def by (rule wellFormed_init)

lemma wellFormed_gameLoop:
  assumes "wellFormedGrid (prevGrid g)"
  shows "wellFormedGrid (prevGrid (fst (gameLoop fr g)))"
  using assms
  by (simp add: gameLoop_def Let_def gameOver_def render_eq wellFormed_buildGrid
      split: prod.splits)

lemma prevGrid_lifecycle [simp]:
  "prevGrid (start now h g) = prevGrid g" "prevGrid (pause g) = prevGrid g"
  "prevGrid (resume now h g) = prevGrid g" "prevGrid (gameOver g) = prevGrid g"
  "prevGrid (destroy g) = prevGrid g"
  by (simp_all add: start_def pause_def resume_def gameOver_def destroy_def)


text \<open>
  C8 (as amended). The previous frame is well formed: \<^verbatim>\<open>initGrid\<close> makes it so and
  every render keeps it so. A render issues a write only for a cell of the grid whose
  glyph or class in the current frame differs from the previous frame, and writes the
  current content; afterwards the stored previous frame is the current frame and
  nothing else of the game has changed. Hence a second render whose frame equals the
  first one issues no write. In particular, if between two renders no pickup,
  projectile, hostile or the player changes grid cell or glyph and the player is
  invincible at neither of them, the second render issues no write.
\<close>

theorem C8_render_diff:
  assumes "wellFormedGrid (prevGrid g)"
  shows "(\<forall>w \<in> set (snd (render now g)).
            fst w < CANVAS_HEIGHT \<and> fst (snd w) < CANVAS_WIDTH
            \<and> snd (snd w) = buildGrid now g ! fst w ! fst (snd w)
            \<and> buildGrid now g ! fst w ! fst (snd w) \<noteq> prevGrid g ! fst w ! fst (snd w))
       \<and> fst (render now g) = g\<lparr>prevGrid := buildGrid now g\<rparr>
       \<and> wellFormedGrid (prevGrid (fst (render now g)))
       \<and> (prevGrid g2 = prevGrid (fst (render now g)) \<and> buildGrid now2 g2 = buildGrid now g
            \<longrightarrow> snd (render now2 g2) = [])
       \<and> (prevGrid g2 = prevGrid (fst (render now g))
            \<and> map cellKey (xpGems g2) = map cellKey (xpGems g)
            \<and> map cellKey (projectiles g2) = map cellKey (projectiles g)
            \<and> map cellKey (enemies g2) = map cellKey (enemies g)
            \<and> cellKey (player g2) = cellKey (player g)
            \<and> \<not> invincible (player g) \<and> \<not> invincible (player g2)
            \<longrightarrow> snd (render now2 g2) = [])"
proof -
  have writes: "\<forall>w \<in> set (snd (render now g)).
            fst w < CANVAS_HEIGHT \<and> fst (snd w) < CANVAS_WIDTH
            \<and> snd (snd w) = buildGrid now g ! fst w ! fst (snd w)
            \<and> buildGrid now g ! fst w ! fst (snd w) \<noteq> prevGrid g ! fst w ! fst (snd w)"
  proof
    fix w assume "w \<in> set (snd (render now g))"
    then have "(fst w, fst (snd w), snd (snd w)) \<in> set (changedCells (buildGrid now g) (prevGrid g))"
      using assms by (simp add: render_eq)
    then show "fst w < CANVAS_HEIGHT \<and> fst (snd w) < CANVAS_WIDTH
            \<and> snd (snd w) = buildGrid now g ! fst w ! fst (snd w)
            \<and> buildGrid now g ! fst w ! fst (snd w) \<noteq> prevGrid g ! fst w ! fst (snd w)"
      using in_changedCells by blast
  qed
  have stored: "fst (render now g) = g\<lparr>prevGrid := buildGrid now g\<rparr>"
    using assms by (simp add: render_eq)
  have same: "snd (render now2 g2) = []"
    if "prevGrid g2 = prevGrid (fst (render now g)) \<and> buildGrid now2 g2 = buildGrid now g"
  proof -
    have "prevGrid g2 = buildGrid now2 g2"
      using that stored by simp
    then show ?thesis
      using wellFormed_buildGrid [of now2 g2]
      by (simp add: render_eq changedCells_same)
  qed
  have still: "snd (render now2 g2) = []"
    if "prevGrid g2 = prevGrid (fst (render now g))
            \<and> map cellKey (xpGems g2) = map cellKey (xpGems g)
            \<and> map cellKey (projectiles g2) = map cellKey (projectiles g)
            \<and> map cellKey (enemies g2) = map cellKey (enemies g)
            \<and> cellKey (player g2) = cellKey (player g)
            \<and> \<not> invincible (player g) \<and> \<not> invincible (player g2)"
  proof -
    have "buildGrid now2 g2 = buildGrid now g"
      using that by (intro buildGrid_cong) simp_all
    then show ?thesis
      using that same by simp
  qed
  show ?thesis
    using writes stored same still wellFormed_buildGrid [of now g] by simp
qed


theorem C8_render_diff_witness:
  "wellFormedGrid (prevGrid contact_game)
   \<and> prevGrid (fst (render 0 contact_game)) = buildGrid 0 contact_game
   \<and> \<not> invincible (player contact_game)
   \<and> snd (render 50 (fst (render 0 contact_game))) = []"
proof -
  have wf: "wellFormedGrid (prevGrid contact_game)"
    by (simp add: contact_game_def wellFormed_emptyGrid)
  have ni: "\<not> invincible (player contact_game)"
    by (simp add: contact_game_def new_Player_def)
  note inst = C8_render_diff [OF wf, of 0 "fst (render 0 contact_game)" 50]
  have stored: "fst (render 0 contact_game) = contact_game\<lparr>prevGrid := buildGrid 0 contact_game\<rparr>"
    using inst by blast
  have "map cellKey (xpGems (fst (render 0 contact_game))) = map cellKey (xpGems contact_game)
      \<and> map cellKey (projectiles (fst (render 0 contact_game))) = map cellKey (projectiles contact_game)
      \<and> map cellKey (enemies (fst (render 0 contact_game))) = map cellKey (enemies contact_game)
      \<and> cellKey (player (fst (render 0 contact_game))) = cellKey (player contact_game)
      \<and> \<not> invincible (player (fst (render 0 contact_game)))"
    using ni by (simp add: stored)
  then have "snd (render 50 (fst (render 0 contact_game))) = []"
    using inst ni by blast
  then show ?thesis
    using wf ni stored by simp
qed


lemma blink_move:
  "moveEntities 16 1097 (blink_game\<lparr>lastTimestamp := 1096\<rparr>) =
     blink_game\<lparr>lastTimestamp := 1096,
                 player := (player blink_game)\<lparr>invincibleTimer := 384\<rparr>\<rparr>"
  by (simp add: blink_game_def moveEntities_def Let_def
      handleInput_def canAttack_def update_player_def new_Player_def
      PLAYER_SPEED_def ATTACK_COOLDOWN_def CANVAS_WIDTH_def CANVAS_HEIGHT_def)

lemma blink_collide:
  "enemies g = [] \<Longrightarrow> projectiles g = [] \<Longrightarrow> xpGems g = [] \<Longrightarrow> checkCollisions g = g"
  by (simp add: checkCollisions_def activeIndices_def Let_def)

lemma blink_cleanup:
  "enemies g = [] \<Longrightarrow> projectiles g = [] \<Longrightarrow> xpGems g = [] \<Longrightarrow> cleanup g = g"
  by (simp add: cleanup_def Let_def)


lemma blink_fields:
  "state blink_game = Playing" "enemies blink_game = []" "projectiles blink_game = []"
  "xpGems blink_game = []" "wave blink_game = 1" "waveTimer blink_game = 1080"
  "spawnTimer blink_game = 1080" "lastTimestamp blink_game = 1080"
  "prevGrid blink_game = emptyGrid" "hp (player blink_game) = 90"
  "invincible (player blink_game)" "xpos (player blink_game) = 15"
  "ypos (player blink_game) = 7" "glyph_of (player blink_game) = CHAR_PLAYER"
  by (simp_all add: blink_game_def new_Player_def)

lemma blink_wave:
  assumes "wave g = 1" and "waveTimer g + dt < 20000" and "spawnTimer g + dt < 2000"
  shows "updateWave dt r1 r2 g = g\<lparr>waveTimer := waveTimer g + dt, spawnTimer := spawnTimer g + dt\<rparr>"
  using assms
  by (simp add: updateWave_def Let_def WAVE_DURATION_def spawnRate_def maxEnemies_def
      MIN_SPAWN_RATE_def BASE_SPAWN_RATE_def)

lemma blink_grid:
  assumes "enemies g = []" "projectiles g = []" "xpGems g = []" "invincible (player g)"
    "xpos (player g) = 15" "ypos (player g) = 7" "glyph_of (player g) = CHAR_PLAYER"
  shows "buildGrid 1098 g =
           setCell (15, 7) \<lparr>cell_char = CHAR_PLAYER, cell_class = ''game-player''\<rparr> emptyGrid"
    and "buildGrid 1114 g = emptyGrid"
  using assms
  by (simp_all add: buildGrid_def Let_def getGridPos_def onGrid_def CANVAS_WIDTH_def CANVAS_HEIGHT_def)

lemma blink_tick1:
  "gameLoop blink_frame1 blink_game =
     (blink_game\<lparr>lastTimestamp := 1096,
                 player := (player blink_game)\<lparr>invincibleTimer := 384\<rparr>,
                 waveTimer := 1096, spawnTimer := 1096,
                 prevGrid := setCell (15, 7)
                    \<lparr>cell_char = CHAR_PLAYER, cell_class = ''game-player''\<rparr> emptyGrid,
                 animationId := Some 2\<rparr>,
      changedCells (setCell (15, 7)
                    \<lparr>cell_char = CHAR_PLAYER, cell_class = ''game-player''\<rparr> emptyGrid) emptyGrid)"
  unfolding gameLoop_def blink_frame1_def
  by (simp add: Let_def blink_fields blink_move blink_collide blink_wave blink_cleanup
      render_eq blink_grid wellFormed_emptyGrid)

lemma blink_move2:
  "moveEntities 16 1113
     (blink_game\<lparr>player := (player blink_game)\<lparr>invincibleTimer := 384\<rparr>,
                 waveTimer := 1096, spawnTimer := 1096, prevGrid := pg,
                 animationId := Some 2, lastTimestamp := 1112\<rparr>) =
     blink_game\<lparr>lastTimestamp := 1112,
                 player := (player blink_game)\<lparr>invincibleTimer := 368\<rparr>,
                 waveTimer := 1096, spawnTimer := 1096, prevGrid := pg,
                 animationId := Some 2\<rparr>"
  by (simp add: blink_game_def moveEntities_def Let_def
      handleInput_def canAttack_def update_player_def new_Player_def
      PLAYER_SPEED_def ATTACK_COOLDOWN_def CANVAS_WIDTH_def CANVAS_HEIGHT_def)

lemma blink_tick2:
  "gameLoop blink_frame2
     (blink_game\<lparr>lastTimestamp := 1096,
                 player := (player blink_game)\<lparr>invincibleTimer := 384\<rparr>,
                 waveTimer := 1096, spawnTimer := 1096,
                 prevGrid := setCell (15, 7)
                    \<lparr>cell_char = CHAR_PLAYER, cell_class = ''game-player''\<rparr> emptyGrid,
                 animationId := Some 2\<rparr>) =
     (blink_game\<lparr>lastTimestamp := 1112,
                 player := (player blink_game)\<lparr>invincibleTimer := 368\<rparr>,
                 waveTimer := 1112, spawnTimer := 1112,
                 prevGrid := emptyGrid,
                 animationId := Some 3\<rparr>,
      changedCells emptyGrid (setCell (15, 7)
                    \<lparr>cell_char = CHAR_PLAYER, cell_class = ''game-player''\<rparr> emptyGrid))"
  unfolding gameLoop_def blink_frame2_def
  by (simp add: Let_def blink_fields blink_move2 blink_collide blink_wave blink_cleanup
      render_eq blink_grid wellFormed_emptyGrid wellFormed_setCell)

lemma blink_cells:
  "emptyGrid ! 7 ! 15 = emptyCell"
  "setCell (15, 7) cl emptyGrid ! 7 ! 15 = cl"
  by (simp_all add: emptyGrid_def setCell_def CANVAS_WIDTH_def CANVAS_HEIGHT_def)

text \<open>
  C8 as stated fails while the player is invincible, because the player glyph blinks
  with real time: in two consecutive ticks, 16 ms apart, no entity changes grid cell
  or glyph (the player stays in cell (15, 7), there is no other entity), the first
  render falls in an even tenth of a second and draws the player, the second in an
  odd one and does not, and so the second tick writes the cell of the player.
\<close>

theorem C8_counterexample:
  "enemies (fst (gameLoop blink_frame1 blink_game)) = []
   \<and> projectiles (fst (gameLoop blink_frame1 blink_game)) = []
   \<and> xpGems (fst (gameLoop blink_frame1 blink_game)) = []
   \<and> enemies (fst (gameLoop blink_frame2 (fst (gameLoop blink_frame1 blink_game)))) = []
   \<and> projectiles (fst (gameLoop blink_frame2 (fst (gameLoop blink_frame1 blink_game)))) = []
   \<and> xpGems (fst (gameLoop blink_frame2 (fst (gameLoop blink_frame1 blink_game)))) = []
   \<and> cellKey (player (fst (gameLoop blink_frame2 (fst (gameLoop blink_frame1 blink_game)))))
       = cellKey (player (fst (gameLoop blink_frame1 blink_game)))
   \<and> (7, 15, emptyCell)
       \<in> set (snd (gameLoop blink_frame2 (fst (gameLoop blink_frame1 blink_game))))
   \<and> snd (gameLoop blink_frame2 (fst (gameLoop blink_frame1 blink_game))) \<noteq> []"
proof -
  have "(7, 15, emptyCell)
       \<in> set (snd (gameLoop blink_frame2 (fst (gameLoop blink_frame1 blink_game))))"
    by (simp add: blink_tick1 blink_tick2 in_changedCells blink_cells emptyCell_def
        CANVAS_WIDTH_def CANVAS_HEIGHT_def)
  moreover from this
  have "snd (gameLoop blink_frame2 (fst (gameLoop blink_frame1 blink_game))) \<noteq> []"
    by auto
  ultimately show ?thesis
    by (simp add: blink_tick2 blink_tick1 blink_fields cellKey_def getGridPos_def)
qed

subsection \<open>Projectile hits\<close>

















text \<open>
  In \<^verbatim>\<open>checkCollisions\<close> the pass over the projectiles runs on the game left by the
  loop "Player vs Enemies", with the indices of the entities that were active at the
  start: that loop keeps the projectiles and the number of hostiles, so the indices
  are those of entities of the game.
\<close>

lemma activeIndices_valid:
  "\<forall>i \<in> set (activeIndices xs). i < length xs \<and> active (xs ! i)"
  by (simp add: activeIndices_def)
































end
